theory Spec2Isabelle
  imports Main "HOL-Library.Word" "HOL-Library.AList"
begin

unbundle bit_operations_syntax

section \<open>Declared structures\<close>

text \<open>
  The model follows \<^verbatim>\<open>electrumsv_bsor/core.py\<close>. A structure is a dataclass; the field
  types are the module's \<^verbatim>\<open>FieldType\<close> enumeration.
\<close>

datatype FieldType = INTEGER | FLOAT | DOUBLE | LIST | STRING | BYTES | OBJECT

text \<open>A \<^verbatim>\<open>dataclasses.Field\<close>: its name, its type (the annotation as a string, which is
  what \<^verbatim>\<open>from __future__ import annotations\<close> stores) and the metadata keys the module
  reads. Fields are declared without a default value, as \<^verbatim>\<open>field(metadata=...)\<close>, so the
  class itself has no attribute of the field's name.\<close>

datatype Field = Field
  (fld_name: string) (fld_type: string)
  (bsor_id: "int option") (bsor_length: "int option") (bsor_type: "FieldType option")

datatype dataclass = Dataclass (cls_name: string) (cls_fields: "Field list")

section \<open>Python values and errors\<close>

text \<open>
  Python values are the values the codec reads and writes: \<^verbatim>\<open>None\<close>, \<^verbatim>\<open>int\<close>,
  \<^verbatim>\<open>float\<close> (its binary64 bit pattern), \<^verbatim>\<open>str\<close> (its code points), \<^verbatim>\<open>bytes\<close>,
  \<^verbatim>\<open>list\<close>, an instance of a dataclass (its class and its attributes in declaration
  order) and an instance of any other class (class name and an opaque state).
  \<^verbatim>\<open>bool\<close> values are not modelled.
\<close>

type_synonym byte = "8 word"
type_synonym bytes = "byte list"

datatype pyval =
    PNone
  | PInt int
  | PFloat "64 word"
  | PStr "nat list"
  | PBytes bytes
  | PList "pyval list"
  | PInstance dataclass "(string \<times> pyval) list"
  | PCustom string bytes

text \<open>The messages of the \<^verbatim>\<open>ValueError\<close>s the module raises, with the values they format.\<close>

datatype value_error =
    FieldNotFound int
  | UnexpectedFieldIdentifier int
  | InvalidFloatLength nat "nat option"
  | InvalidStringNone
  | ListPointerPrefix nat "bytes option"

datatype error =
    StopIteration
  | ValueError value_error
  | UnknownType string
  | AssertionError
  | NotImplementedError
  | TypeError
  | AttributeError
  | KeyError string
  | RecursionError
  | StructError
  | UnicodeEncodeError
  | UnicodeDecodeError

text \<open>\<^verbatim>\<open>hasattr\<close> and \<^verbatim>\<open>getattr\<close>: the attributes of an instance are its fields; the
  other values have no attribute of a field's name.\<close>

fun attributes :: "pyval \<Rightarrow> (string \<times> pyval) list" where
  "attributes (PInstance c kvs) = kvs"
| "attributes _ = []"

definition hasattr :: "pyval \<Rightarrow> string \<Rightarrow> bool" where
  "hasattr v n = (map_of (attributes v) n \<noteq> None)"

definition getattr :: "pyval \<Rightarrow> string \<Rightarrow> pyval" where
  "getattr v n = (case map_of (attributes v) n of Some x \<Rightarrow> x | None \<Rightarrow> PNone)"

section \<open>The token stream (bitcoinx)\<close>

text \<open>
  The codec reads from \<^verbatim>\<open>Script(data).ops_and_items()\<close> and writes the bytes of
  \<^verbatim>\<open>push_int\<close> and \<^verbatim>\<open>push_item\<close>. These belong to the library \<^verbatim>\<open>bitcoinx\<close>,
  outside the repository. The stream is modelled at the level of its tokens: a token is the
  pair \<^verbatim>\<open>(opcode, item)\<close> the generator yields, and writing \<^verbatim>\<open>push_item(b)\<close> appends
  the token the generator yields for those bytes. Payloads are shorter than \<open>2 ^ 32\<close> bytes.
\<close>

type_synonym token = "nat \<times> bytes option"
type_synonym GENERATOR = "token list"

definition OP_0 :: nat where "OP_0 = 0"
definition OP_PUSHDATA1 :: nat where "OP_PUSHDATA1 = 76"
definition OP_PUSHDATA2 :: nat where "OP_PUSHDATA2 = 77"
definition OP_PUSHDATA4 :: nat where "OP_PUSHDATA4 = 78"
definition OP_1NEGATE :: nat where "OP_1NEGATE = 79"
definition OP_1 :: nat where "OP_1 = 81"

text \<open>Modelled from the spec: the token stream's integer encoding, "minimal signed
  representation, the shortest byte string recovering the value; empty string encodes 0"
  (little-endian magnitude, sign in the top bit of the last byte).\<close>

fun le_bytes :: "nat \<Rightarrow> bytes" where
  "le_bytes n = (if n = 0 then [] else word_of_nat (n mod 256) # le_bytes (n div 256))"

declare le_bytes.simps [simp del]

fun from_le :: "bytes \<Rightarrow> nat" where
  "from_le [] = 0"
| "from_le (b # bs) = unat b + 256 * from_le bs"

definition int_to_item :: "int \<Rightarrow> bytes" where
  "int_to_item v =
     (if v = 0 then []
      else let m = le_bytes (nat \<bar>v\<bar>) in
        if last m AND 0x80 \<noteq> 0 then m @ [if v < 0 then 0x80 else 0]
        else if v < 0 then butlast m @ [last m OR 0x80]
        else m)"

definition item_to_int :: "bytes option \<Rightarrow> int" where
  "item_to_int item =
     (case item of
        None \<Rightarrow> 0
      | Some bs \<Rightarrow>
          if bs = [] then 0
          else if last bs AND 0x80 \<noteq> 0
               then - int (from_le (butlast bs @ [last bs AND 0x7f]))
               else int (from_le bs))"

text \<open>Modelled from the spec: "String / Bytes: raw payload bytes; length is carried by the
  enclosing token". A payload of one byte in 1..16 or 0x81 is a single opcode.\<close>

definition push_item :: "bytes \<Rightarrow> token" where
  "push_item item =
     (if item = [] then (OP_0, Some [])
      else if length item = 1 \<and> 0 < unat (hd item) \<and> unat (hd item) \<le> 16
           then (OP_1 + unat (hd item) - 1, Some item)
      else if length item = 1 \<and> hd item = 0x81 then (OP_1NEGATE, Some item)
      else if length item < OP_PUSHDATA1 then (length item, Some item)
      else if length item \<le> 0xff then (OP_PUSHDATA1, Some item)
      else if length item \<le> 0xffff then (OP_PUSHDATA2, Some item)
      else (OP_PUSHDATA4, Some item))"

definition push_int :: "int \<Rightarrow> token" where
  "push_int v = (if v = 0 then (OP_0, Some []) else push_item (int_to_item v))"

section \<open>Text and floating-point codecs (Python's own)\<close>

text \<open>\<^verbatim>\<open>str.encode()\<close> and \<^verbatim>\<open>bytes.decode("utf-8")\<close>: strict UTF-8 over code points.\<close>

definition utf8_char :: "nat \<Rightarrow> bytes option" where
  "utf8_char c =
     (if c < 0x80 then Some [word_of_nat c]
      else if c < 0x800 then Some [word_of_nat (0xC0 + c div 64), word_of_nat (0x80 + c mod 64)]
      else if 0xD800 \<le> c \<and> c \<le> 0xDFFF then None
      else if c < 0x10000 then
        Some [word_of_nat (0xE0 + c div 4096), word_of_nat (0x80 + c div 64 mod 64),
              word_of_nat (0x80 + c mod 64)]
      else if c < 0x110000 then
        Some [word_of_nat (0xF0 + c div 262144), word_of_nat (0x80 + c div 4096 mod 64),
              word_of_nat (0x80 + c div 64 mod 64), word_of_nat (0x80 + c mod 64)]
      else None)"

fun utf8_encode :: "nat list \<Rightarrow> error + bytes" where
  "utf8_encode [] = Inr []"
| "utf8_encode (c # cs) =
     (case utf8_char c of
        None \<Rightarrow> Inl UnicodeEncodeError
      | Some bs \<Rightarrow> (case utf8_encode cs of Inl e \<Rightarrow> Inl e | Inr r \<Rightarrow> Inr (bs @ r)))"

definition cont :: "byte \<Rightarrow> bool" where
  "cont b = (0x80 \<le> unat b \<and> unat b \<le> 0xBF)"

definition low6 :: "byte \<Rightarrow> nat" where
  "low6 b = unat b - 0x80"

fun utf8_decode :: "bytes \<Rightarrow> error + nat list" where
  "utf8_decode [] = Inr []"
| "utf8_decode (b # bs) =
     (let a = unat b in
      if a < 0x80 then
        (case utf8_decode bs of Inl e \<Rightarrow> Inl e | Inr r \<Rightarrow> Inr (a # r))
      else if 0xC2 \<le> a \<and> a \<le> 0xDF then
        (case bs of
           b1 # r1 \<Rightarrow>
             if cont b1 then
               (case utf8_decode r1 of Inl e \<Rightarrow> Inl e
                | Inr r \<Rightarrow> Inr (((a - 0xC0) * 64 + low6 b1) # r))
             else Inl UnicodeDecodeError
         | _ \<Rightarrow> Inl UnicodeDecodeError)
      else if 0xE0 \<le> a \<and> a \<le> 0xEF then
        (case bs of
           b1 # b2 # r2 \<Rightarrow>
             (let c = (a - 0xE0) * 4096 + low6 b1 * 64 + low6 b2 in
              if cont b1 \<and> cont b2 \<and> 0x800 \<le> c \<and> \<not> (0xD800 \<le> c \<and> c \<le> 0xDFFF) then
                (case utf8_decode r2 of Inl e \<Rightarrow> Inl e | Inr r \<Rightarrow> Inr (c # r))
              else Inl UnicodeDecodeError)
         | _ \<Rightarrow> Inl UnicodeDecodeError)
      else if 0xF0 \<le> a \<and> a \<le> 0xF4 then
        (case bs of
           b1 # b2 # b3 # r3 \<Rightarrow>
             (let c = (a - 0xF0) * 262144 + low6 b1 * 4096 + low6 b2 * 64 + low6 b3 in
              if cont b1 \<and> cont b2 \<and> cont b3 \<and> 0x10000 \<le> c \<and> c < 0x110000 then
                (case utf8_decode r3 of Inl e \<Rightarrow> Inl e | Inr r \<Rightarrow> Inr (c # r))
              else Inl UnicodeDecodeError)
         | _ \<Rightarrow> Inl UnicodeDecodeError)
      else Inl UnicodeDecodeError)"

text \<open>
  \<^verbatim>\<open>struct.pack\<close> and \<^verbatim>\<open>struct.unpack\<close> with the formats \<^verbatim>\<open>"<f"\<close> and \<^verbatim>\<open>"<d"\<close>
  convert between Python floats and IEEE-754 bytes, rounding on the way to binary32. The
  conversions are a parameter of the codec: \<open>unpack_f S b\<close> is the value of
  \<^verbatim>\<open>struct.unpack("<f", b)\<close> for four bytes \<open>b\<close>, \<open>pack_f S v\<close> the result of
  \<^verbatim>\<open>struct.pack("<f", v)\<close> or the error it raises.
\<close>

datatype struct_module = Struct
  (pack_f: "pyval \<Rightarrow> error + bytes")
  (pack_d: "pyval \<Rightarrow> error + bytes")
  (unpack_f: "bytes \<Rightarrow> pyval")
  (unpack_d: "bytes \<Rightarrow> pyval")

section \<open>The schema model\<close>

definition TYPE_DEFAULTS :: "FieldType \<Rightarrow> pyval option" where
  "TYPE_DEFAULTS t =
     (case t of STRING \<Rightarrow> Some (PStr []) | BYTES \<Rightarrow> Some (PBytes []) | INTEGER \<Rightarrow> Some (PInt 0)
      | _ \<Rightarrow> None)"

datatype FieldTypeMetadata = FieldTypeMetadata
  (field_type: FieldType) (is_class_reference: bool) (stores_pointers: bool)

text \<open>The attribute \<^verbatim>\<open>identifier\<close> of a \<^verbatim>\<open>FieldEntry\<close> is \<open>ident\<close> here.\<close>

datatype FieldEntry = FieldEntry (ident: int) (type_metadata: FieldTypeMetadata)

type_synonym NamedFieldEntry = "string \<times> FieldEntry"

text \<open>An entry of the binding table \<^verbatim>\<open>class_references\<close> is the tuple
  \<^verbatim>\<open>(class or decoder, encoder factory or None, field type)\<close>. A decoder takes the token's
  item; \<open>encoder v\<close> is the value of \<^verbatim>\<open>encoder_callable_factory(v)()\<close>.\<close>

datatype callable_or_class = Class dataclass | Callable "pyval \<Rightarrow> error + pyval"

type_synonym class_reference =
  "callable_or_class \<times> (pyval \<Rightarrow> error + pyval) option \<times> FieldType"

type_synonym class_references = "string \<Rightarrow> class_reference option"

datatype DataclassDefinition = Definition
  (dataclass_object: dataclass) (class_references: class_references)
  (fields: "NamedFieldEntry list")

definition endswith :: "string \<Rightarrow> string \<Rightarrow> bool" where
  "endswith s suf = (length suf \<le> length s \<and> drop (length s - length suf) s = suf)"

definition startswith :: "string \<Rightarrow> string \<Rightarrow> bool" where
  "startswith s pre = (take (length pre) s = pre)"

text \<open>\<^verbatim>\<open>s[:-7]\<close> and \<^verbatim>\<open>s[5:-1]\<close>.\<close>

definition strip_none :: "string \<Rightarrow> string" where
  "strip_none s = take (length s - 7) s"

definition list_item_type :: "string \<Rightarrow> string" where
  "list_item_type s = drop 5 (take (length s - 1) s)"

definition map_type_name_to_field_type ::
  "string \<Rightarrow> class_references \<Rightarrow> Field option \<Rightarrow> error + FieldTypeMetadata" where
  "map_type_name_to_field_type type_name0 refs field =
     (let stores_pointers = endswith type_name0 '' | None'';
          type_name = (if stores_pointers then strip_none type_name0 else type_name0) in
      if type_name = ''int'' then Inr (FieldTypeMetadata INTEGER False stores_pointers)
      else if type_name = ''float'' then
        (case field of
           None \<Rightarrow> Inr (FieldTypeMetadata FLOAT False False)
         | Some f \<Rightarrow>
             (let ft = (case bsor_type f of None \<Rightarrow> FLOAT | Some t \<Rightarrow> t) in
              if ft = FLOAT \<or> ft = DOUBLE then Inr (FieldTypeMetadata ft False stores_pointers)
              else Inl AssertionError))
      else if startswith type_name ''list['' then
        Inr (FieldTypeMetadata LIST False stores_pointers)
      else if type_name = ''str'' then Inr (FieldTypeMetadata STRING False stores_pointers)
      else if type_name = ''bytes'' then Inr (FieldTypeMetadata BYTES False stores_pointers)
      else (case refs type_name of
              Some (dec, enc, ft) \<Rightarrow> Inr (FieldTypeMetadata ft True stores_pointers)
            | None \<Rightarrow> Inl (UnknownType type_name)))"

text \<open>\<^verbatim>\<open>DataclassDefinition.__init__\<close>: the loop over \<^verbatim>\<open>dataclasses.fields\<close>, with its
  two accumulators.\<close>

fun init_fields ::
  "Field list \<Rightarrow> class_references \<Rightarrow> int set \<Rightarrow> NamedFieldEntry list
     \<Rightarrow> error + NamedFieldEntry list" where
  "init_fields [] refs encountered_identifiers fs = Inr fs"
| "init_fields (f # rest) refs encountered_identifiers fs =
     (case bsor_id f of
        None \<Rightarrow> Inl AssertionError
      | Some field_id \<Rightarrow>
          (case map_type_name_to_field_type (fld_type f) refs (Some f) of
             Inl e \<Rightarrow> Inl e
           | Inr field_type_data \<Rightarrow>
               init_fields rest refs (insert field_id encountered_identifiers)
                 (fs @ [(fld_name f, FieldEntry field_id field_type_data)])))"

definition DataclassDefinition_init ::
  "dataclass \<Rightarrow> class_references \<Rightarrow> error + DataclassDefinition" where
  "DataclassDefinition_init cls refs =
     (case init_fields (cls_fields cls) refs {} [] of
        Inl e \<Rightarrow> Inl e
      | Inr fs \<Rightarrow> Inr (Definition cls refs fs))"

definition get_field :: "DataclassDefinition \<Rightarrow> int \<Rightarrow> error + NamedFieldEntry" where
  "get_field d field_identifier =
     (case find (\<lambda>named_field. ident (snd named_field) = field_identifier) (fields d) of
        Some named_field \<Rightarrow> Inr named_field
      | None \<Rightarrow> Inl (ValueError (FieldNotFound field_identifier)))"

definition get_fields :: "DataclassDefinition \<Rightarrow> NamedFieldEntry list" where
  "get_fields d = fields d"

definition get_field_entries :: "DataclassDefinition \<Rightarrow> FieldEntry list" where
  "get_field_entries d = map snd (fields d)"

definition get_field_entry :: "DataclassDefinition \<Rightarrow> int \<Rightarrow> error + FieldEntry" where
  "get_field_entry d field_identifier =
     (case find (\<lambda>field. ident field = field_identifier) (get_field_entries d) of
        Some field \<Rightarrow> Inr field
      | None \<Rightarrow> Inl (ValueError (UnexpectedFieldIdentifier field_identifier)))"

text \<open>\<^verbatim>\<open>__dataclass_fields__[name]\<close>.\<close>

definition dataclass_field :: "dataclass \<Rightarrow> string \<Rightarrow> error + Field" where
  "dataclass_field cls n =
     (case find (\<lambda>f. fld_name f = n) (cls_fields cls) of
        Some f \<Rightarrow> Inr f
      | None \<Rightarrow> Inl (KeyError n))"

definition get_field_value ::
  "DataclassDefinition \<Rightarrow> int
     \<Rightarrow> error + (callable_or_class \<times> (pyval \<Rightarrow> error + pyval) option)" where
  "get_field_value d field_identifier =
     (case find (\<lambda>entry. ident (snd entry) = field_identifier) (fields d) of
        None \<Rightarrow> Inl (ValueError (UnexpectedFieldIdentifier field_identifier))
      | Some (entry_field_name, entry_field_entry) \<Rightarrow>
          (case dataclass_field (dataclass_object d) entry_field_name of
             Inl e \<Rightarrow> Inl e
           | Inr field \<Rightarrow>
               if fld_type field \<in> {''int'', ''float'', ''str'', ''bytes''} then Inl AttributeError
               else
                 (let n1 = (if startswith (fld_type field) ''list[''
                            then list_item_type (fld_type field) else fld_type field);
                      n2 = (if endswith n1 '' | None'' then strip_none n1 else n1) in
                  case class_references d n2 of
                    None \<Rightarrow> Inl (KeyError n2)
                  | Some (a, b, ft) \<Rightarrow> Inr (a, b))))"

definition get_list_constraint ::
  "DataclassDefinition \<Rightarrow> int \<Rightarrow> error + (DataclassDefinition \<times> FieldEntry \<times> int option)" where
  "get_list_constraint d field_identifier =
     (case find (\<lambda>entry. ident (snd entry) = field_identifier) (fields d) of
        None \<Rightarrow> Inl (ValueError (UnexpectedFieldIdentifier field_identifier))
      | Some (entry_field_name, entry_field_entry) \<Rightarrow>
          (case dataclass_field (dataclass_object d) entry_field_name of
             Inl e \<Rightarrow> Inl e
           | Inr field \<Rightarrow>
               (case map_type_name_to_field_type (list_item_type (fld_type field))
                       (class_references d) None of
                  Inl e \<Rightarrow> Inl e
                | Inr field_type_data \<Rightarrow>
                    Inr (d, FieldEntry field_identifier field_type_data, bsor_length field))))"

definition get_definition :: "DataclassDefinition \<Rightarrow> int \<Rightarrow> error + DataclassDefinition" where
  "get_definition d field_identifier =
     (case get_field_value d field_identifier of
        Inl e \<Rightarrow> Inl e
      | Inr (class_reference, decoder_callable) \<Rightarrow>
          if decoder_callable \<noteq> None then Inl AssertionError
          else (case class_reference of
                  Class c \<Rightarrow> DataclassDefinition_init c (class_references d)
                | Callable f \<Rightarrow> Inl TypeError))"

section \<open>The decoder\<close>

text \<open>
  A Python call takes a frame, and the interpreter raises \<^verbatim>\<open>RecursionError\<close> when the
  frames run out. The first number each function takes is the number of frames left: a call
  with none left raises, and a callee has one frame less. The loops run inside their frame.
  A reader returns the value it read and the tokens that remain.
\<close>

definition next_token :: "GENERATOR \<Rightarrow> error + token \<times> GENERATOR" where
  "next_token gen = (case gen of [] \<Rightarrow> Inl StopIteration | t # rest \<Rightarrow> Inr (t, rest))"

definition item_value :: "bytes option \<Rightarrow> pyval" where
  "item_value item = (case item of None \<Rightarrow> PNone | Some b \<Rightarrow> PBytes b)"

text \<open>The call \<^verbatim>\<open>decode_callable(value_bytes)\<close>; a dataclass called with one positional
  argument needs exactly one field.\<close>

definition call_decoder :: "callable_or_class \<Rightarrow> pyval \<Rightarrow> error + pyval" where
  "call_decoder f v =
     (case f of
        Callable g \<Rightarrow> g v
      | Class c \<Rightarrow>
          (case cls_fields c of
             [fd] \<Rightarrow> Inr (PInstance c [(fld_name fd, v)])
           | _ \<Rightarrow> Inl TypeError))"

text \<open>The call \<^verbatim>\<open>class_reference(**kwargs)\<close> of a dataclass: every keyword is a field
  and every field has its keyword.\<close>

definition construct :: "dataclass \<Rightarrow> (string \<times> pyval) list \<Rightarrow> error + pyval" where
  "construct cls kwargs =
     (if \<exists>k \<in> set (map fst kwargs). k \<notin> set (map fld_name (cls_fields cls)) then Inl TypeError
      else if \<exists>f \<in> set (cls_fields cls). map_of kwargs (fld_name f) = None then Inl TypeError
      else Inr (PInstance cls
             (map (\<lambda>f. (fld_name f,
                     (case map_of kwargs (fld_name f) of Some v \<Rightarrow> v | None \<Rightarrow> PNone)))
                (cls_fields cls))))"

text \<open>The second loop of \<^verbatim>\<open>_read_structure\<close>: the fields the stream did not bring.\<close>

fun populate :: "NamedFieldEntry list \<Rightarrow> (string \<times> pyval) list \<Rightarrow> (string \<times> pyval) list" where
  "populate [] kwargs = kwargs"
| "populate ((field_name, field) # rest) kwargs =
     (if map_of kwargs field_name = None then
        (if stores_pointers (type_metadata field)
         then populate rest (AList.update field_name PNone kwargs)
         else (case TYPE_DEFAULTS (field_type (type_metadata field)) of
                 Some v \<Rightarrow> populate rest (AList.update field_name v kwargs)
               | None \<Rightarrow> populate rest kwargs))
      else populate rest kwargs)"

function (sequential) read_structure ::
  "struct_module \<Rightarrow> nat \<Rightarrow> GENERATOR \<Rightarrow> DataclassDefinition \<Rightarrow> dataclass
     \<Rightarrow> error + pyval \<times> GENERATOR"
and read_fields ::
  "struct_module \<Rightarrow> nat \<Rightarrow> nat \<Rightarrow> GENERATOR \<Rightarrow> DataclassDefinition \<Rightarrow> (string \<times> pyval) list
     \<Rightarrow> error + (string \<times> pyval) list \<times> GENERATOR"
and read_field ::
  "struct_module \<Rightarrow> nat \<Rightarrow> GENERATOR \<Rightarrow> DataclassDefinition
     \<Rightarrow> error + (int \<times> pyval) \<times> GENERATOR"
and read_type ::
  "struct_module \<Rightarrow> nat \<Rightarrow> GENERATOR \<Rightarrow> DataclassDefinition \<Rightarrow> FieldEntry
     \<Rightarrow> error + pyval \<times> GENERATOR"
and read_items ::
  "struct_module \<Rightarrow> nat \<Rightarrow> nat \<Rightarrow> GENERATOR \<Rightarrow> DataclassDefinition \<Rightarrow> FieldEntry \<Rightarrow> pyval list
     \<Rightarrow> error + pyval list \<times> GENERATOR"
where
  "read_structure S 0 gen d class_reference = Inl RecursionError"
| "read_structure S (Suc k) gen d class_reference =
     (case next_token gen of
        Inl e \<Rightarrow> Inl e
      | Inr ((opcode, value_bytes), g1) \<Rightarrow>
          (case read_fields S k (nat (item_to_int value_bytes)) g1 d [] of
             Inl e \<Rightarrow> Inl e
           | Inr (kwargs, g2) \<Rightarrow>
               (case construct class_reference (populate (get_fields d) kwargs) of
                  Inl e \<Rightarrow> Inl e
                | Inr v \<Rightarrow> Inr (v, g2))))"
| "read_fields S k 0 gen d kwargs = Inr (kwargs, gen)"
| "read_fields S k (Suc n) gen d kwargs =
     (case read_field S k gen d of
        Inl e \<Rightarrow> Inl e
      | Inr ((field_id, field_value), g1) \<Rightarrow>
          (case get_field d field_id of
             Inl e \<Rightarrow> Inl e
           | Inr (field_name, fe) \<Rightarrow>
               read_fields S k n g1 d (AList.update field_name field_value kwargs)))"
| "read_field S 0 gen d = Inl RecursionError"
| "read_field S (Suc k) gen d =
     (case next_token gen of
        Inl e \<Rightarrow> Inl e
      | Inr ((opcode, value_bytes), g1) \<Rightarrow>
          (case get_field_entry d (item_to_int value_bytes) of
             Inl e \<Rightarrow> Inl e
           | Inr field_entry \<Rightarrow>
               (case read_type S k g1 d field_entry of
                  Inl e \<Rightarrow> Inl e
                | Inr (field_value, g2) \<Rightarrow> Inr ((item_to_int value_bytes, field_value), g2))))"
| "read_type S 0 gen d field_entry = Inl RecursionError"
| "read_type S (Suc k) gen d field_entry =
     (if is_class_reference (type_metadata field_entry)
         \<and> field_type (type_metadata field_entry) \<noteq> OBJECT then
        (case get_field_value d (ident field_entry) of
           Inl e \<Rightarrow> Inl e
         | Inr (decode_callable, encode_callable) \<Rightarrow>
             (case next_token gen of
                Inl e \<Rightarrow> Inl e
              | Inr ((opcode, value_bytes), g1) \<Rightarrow>
                  (case call_decoder decode_callable (item_value value_bytes) of
                     Inl e \<Rightarrow> Inl e
                   | Inr field_value \<Rightarrow> Inr (field_value, g1))))
      else
        (case field_type (type_metadata field_entry) of
           INTEGER \<Rightarrow>
             (case next_token gen of
                Inl e \<Rightarrow> Inl e
              | Inr ((opcode, value_bytes), g1) \<Rightarrow> Inr (PInt (item_to_int value_bytes), g1))
         | FLOAT \<Rightarrow>
             (case next_token gen of
                Inl e \<Rightarrow> Inl e
              | Inr ((opcode, value_bytes), g1) \<Rightarrow>
                  (case value_bytes of
                     None \<Rightarrow> Inl (ValueError (InvalidFloatLength 4 None))
                   | Some b \<Rightarrow>
                       if length b \<noteq> 4
                       then Inl (ValueError (InvalidFloatLength 4 (Some (length b))))
                       else Inr (unpack_f S b, g1)))
         | DOUBLE \<Rightarrow>
             (case next_token gen of
                Inl e \<Rightarrow> Inl e
              | Inr ((opcode, value_bytes), g1) \<Rightarrow>
                  (case value_bytes of
                     None \<Rightarrow> Inl (ValueError (InvalidFloatLength 8 None))
                   | Some b \<Rightarrow>
                       if length b \<noteq> 8
                       then Inl (ValueError (InvalidFloatLength 8 (Some (length b))))
                       else Inr (unpack_d S b, g1)))
         | BYTES \<Rightarrow>
             (case next_token gen of
                Inl e \<Rightarrow> Inl e
              | Inr ((opcode, value_bytes), g1) \<Rightarrow> Inr (item_value value_bytes, g1))
         | STRING \<Rightarrow>
             (case next_token gen of
                Inl e \<Rightarrow> Inl e
              | Inr ((opcode, value_bytes), g1) \<Rightarrow>
                  (case value_bytes of
                     None \<Rightarrow> Inl (ValueError InvalidStringNone)
                   | Some b \<Rightarrow>
                       (case utf8_decode b of
                          Inl e \<Rightarrow> Inl e
                        | Inr s \<Rightarrow> Inr (PStr s, g1))))
         | LIST \<Rightarrow>
             (case get_list_constraint d (ident field_entry) of
                Inl e \<Rightarrow> Inl e
              | Inr (list_definition, item_field_entry, item_count) \<Rightarrow>
                  (case (case item_count of
                           Some n \<Rightarrow> Inr (n, gen)
                         | None \<Rightarrow>
                             (case next_token gen of
                                Inl e \<Rightarrow> Inl e
                              | Inr ((opcode, value_bytes), g1) \<Rightarrow>
                                  Inr (item_to_int value_bytes, g1))) of
                     Inl e \<Rightarrow> Inl e
                   | Inr (n, g1) \<Rightarrow>
                       (case read_items S k (nat n) g1 list_definition item_field_entry [] of
                          Inl e \<Rightarrow> Inl e
                        | Inr (field_value, g2) \<Rightarrow> Inr (PList field_value, g2))))
         | OBJECT \<Rightarrow>
             (case get_definition d (ident field_entry) of
                Inl e \<Rightarrow> Inl e
              | Inr next_definition \<Rightarrow>
                  (case get_field_value d (ident field_entry) of
                     Inl e \<Rightarrow> Inl e
                   | Inr (class_reference, decoder_value) \<Rightarrow>
                       if decoder_value \<noteq> None then Inl AssertionError
                       else (case class_reference of
                               Class c \<Rightarrow> read_structure S k gen next_definition c
                             | Callable f \<Rightarrow> Inl TypeError)))))"
| "read_items S k 0 gen d item_field_entry field_value = Inr (field_value, gen)"
| "read_items S k (Suc n) gen d item_field_entry field_value =
     (if stores_pointers (type_metadata item_field_entry) then
        (case next_token gen of
           Inl e \<Rightarrow> Inl e
         | Inr ((opcode, value_bytes), g1) \<Rightarrow>
             if opcode = OP_0 then
               read_items S k n g1 d item_field_entry (field_value @ [PNone])
             else if opcode \<noteq> OP_1 then
               Inl (ValueError (ListPointerPrefix opcode value_bytes))
             else
               (case read_type S k g1 d item_field_entry of
                  Inl e \<Rightarrow> Inl e
                | Inr (v, g2) \<Rightarrow> read_items S k n g2 d item_field_entry (field_value @ [v])))
      else
        (case read_type S k gen d item_field_entry of
           Inl e \<Rightarrow> Inl e
         | Inr (v, g2) \<Rightarrow> read_items S k n g2 d item_field_entry (field_value @ [v])))"
  by pat_completeness auto

termination
  by (relation "inv_image (less_than <*lex*> less_than)
        (\<lambda>x. case x of
            Inl (Inl (S, k, gen, d, c)) \<Rightarrow> (k, 0)
          | Inl (Inr (S, k, n, gen, d, kw)) \<Rightarrow> (k, Suc n)
          | Inr (Inl (S, k, gen, d)) \<Rightarrow> (k, 0)
          | Inr (Inr (Inl (S, k, gen, d, fe))) \<Rightarrow> (k, 0)
          | Inr (Inr (Inr (S, k, n, gen, d, fe, acc))) \<Rightarrow> (k, Suc n))")
    auto

definition loads ::
  "struct_module \<Rightarrow> nat \<Rightarrow> GENERATOR \<Rightarrow> DataclassDefinition \<Rightarrow> dataclass \<Rightarrow> error + pyval" where
  "loads S frames script_iterator d class_reference =
     (case read_structure S frames script_iterator d class_reference of
        Inl e \<Rightarrow> Inl e
      | Inr (v, rest) \<Rightarrow> Inr v)"

section \<open>The encoder\<close>

text \<open>
  A writer returns the tokens it wrote to the stream. The comparison
  \<^verbatim>\<open>field_value == TYPE_DEFAULTS[...]\<close> is Python's \<^verbatim>\<open>==\<close> against one of the three
  defaults: a float zero equals the integer default.
\<close>

definition equals_default :: "pyval \<Rightarrow> pyval \<Rightarrow> bool" where
  "equals_default field_value dflt =
     (field_value = dflt
      \<or> (dflt = PInt 0 \<and> (field_value = PFloat 0 \<or> field_value = PFloat 0x8000000000000000)))"

text \<open>\<^verbatim>\<open>push_int\<close> and \<^verbatim>\<open>push_item\<close> applied to a Python value. A value they do not
  accept raises inside the library; the class of that error is taken to be
  \<^verbatim>\<open>TypeError\<close>.\<close>

definition push_int_value :: "pyval \<Rightarrow> error + token" where
  "push_int_value v =
     (case v of
        PInt n \<Rightarrow> Inr (push_int n)
      | PFloat w \<Rightarrow> if w = 0 \<or> w = 0x8000000000000000 then Inr (OP_0, Some []) else Inl TypeError
      | _ \<Rightarrow> Inl TypeError)"

definition push_item_value :: "pyval \<Rightarrow> error + token" where
  "push_item_value v =
     (case v of
        PBytes b \<Rightarrow> Inr (push_item b)
      | PStr s \<Rightarrow> if s = [] then Inr (OP_0, Some []) else Inl TypeError
      | PList xs \<Rightarrow>
          (case xs of
             [] \<Rightarrow> Inr (OP_0, Some [])
           | [PInt n] \<Rightarrow>
               if 0 < n \<and> n \<le> 16 then Inr (OP_1 + nat n - 1, Some [word_of_int n])
               else if n = 0x81 then Inr (OP_1NEGATE, Some [0x81])
               else Inl TypeError
           | _ \<Rightarrow> Inl TypeError)
      | _ \<Rightarrow> Inl TypeError)"

text \<open>\<^verbatim>\<open>len\<close> and iteration of the value of a list field.\<close>

definition py_iter :: "pyval \<Rightarrow> error + pyval list" where
  "py_iter v =
     (case v of
        PList xs \<Rightarrow> Inr xs
      | PStr s \<Rightarrow> Inr (map (\<lambda>c. PStr [c]) s)
      | PBytes b \<Rightarrow> Inr (map (\<lambda>x. PInt (uint x)) b)
      | _ \<Rightarrow> Inl TypeError)"

text \<open>The first loop of \<^verbatim>\<open>_write_structure\<close>: the fields that are written.\<close>

fun select_fields :: "NamedFieldEntry list \<Rightarrow> pyval \<Rightarrow> NamedFieldEntry list" where
  "select_fields [] object_value = []"
| "select_fields ((field_name, field_entry) # rest) object_value =
     (if \<not> hasattr object_value field_name then select_fields rest object_value
      else
        (case TYPE_DEFAULTS (field_type (type_metadata field_entry)) of
           Some dflt \<Rightarrow>
             if stores_pointers (type_metadata field_entry) then
               (if getattr object_value field_name = PNone then select_fields rest object_value
                else (field_name, field_entry) # select_fields rest object_value)
             else if equals_default (getattr object_value field_name) dflt
               then select_fields rest object_value
             else (field_name, field_entry) # select_fields rest object_value
         | None \<Rightarrow> (field_name, field_entry) # select_fields rest object_value))"

function (sequential) write_structure ::
  "struct_module \<Rightarrow> nat \<Rightarrow> DataclassDefinition \<Rightarrow> pyval \<Rightarrow> error + token list"
and write_fields ::
  "struct_module \<Rightarrow> nat \<Rightarrow> DataclassDefinition \<Rightarrow> NamedFieldEntry list \<Rightarrow> pyval
     \<Rightarrow> error + token list"
and write_field ::
  "struct_module \<Rightarrow> nat \<Rightarrow> DataclassDefinition \<Rightarrow> int \<Rightarrow> FieldTypeMetadata \<Rightarrow> pyval
     \<Rightarrow> error + token list"
and write_type ::
  "struct_module \<Rightarrow> nat \<Rightarrow> DataclassDefinition \<Rightarrow> int \<Rightarrow> FieldTypeMetadata \<Rightarrow> pyval
     \<Rightarrow> error + token list"
and write_items ::
  "struct_module \<Rightarrow> nat \<Rightarrow> DataclassDefinition \<Rightarrow> int \<Rightarrow> FieldEntry \<Rightarrow> pyval list
     \<Rightarrow> error + token list"
where
  "write_structure S 0 d object_value = Inl RecursionError"
| "write_structure S (Suc k) d object_value =
     (case write_fields S k d (select_fields (get_fields d) object_value) object_value of
        Inl e \<Rightarrow> Inl e
      | Inr ts \<Rightarrow>
          Inr (push_int (int (length (select_fields (get_fields d) object_value))) # ts))"
| "write_fields S k d [] object_value = Inr []"
| "write_fields S k d ((field_name, field_entry) # rest) object_value =
     (if hasattr object_value field_name then
        (case write_field S k d (ident field_entry) (type_metadata field_entry)
                (getattr object_value field_name) of
           Inl e \<Rightarrow> Inl e
         | Inr ts \<Rightarrow>
             (case write_fields S k d rest object_value of
                Inl e \<Rightarrow> Inl e
              | Inr ts' \<Rightarrow> Inr (ts @ ts')))
      else write_fields S k d rest object_value)"
| "write_field S 0 d field_identifier field_type_metadata field_value = Inl RecursionError"
| "write_field S (Suc k) d field_identifier field_type_metadata field_value =
     (case write_type S k d field_identifier field_type_metadata field_value of
        Inl e \<Rightarrow> Inl e
      | Inr ts \<Rightarrow> Inr (push_int field_identifier # ts))"
| "write_type S 0 d field_identifier field_type_metadata field_value0 = Inl RecursionError"
| "write_type S (Suc k) d field_identifier field_type_metadata field_value0 =
     (case (if is_class_reference field_type_metadata
               \<and> field_type field_type_metadata \<noteq> OBJECT then
              (case get_field_value d field_identifier of
                 Inl e \<Rightarrow> Inl e
               | Inr (decode_callable, encoder_callable_factory) \<Rightarrow>
                   if field_type field_type_metadata = BYTES then
                     (case encoder_callable_factory of
                        None \<Rightarrow> Inl TypeError
                      | Some encoder \<Rightarrow> encoder field_value0)
                   else Inl NotImplementedError)
            else Inr field_value0) of
        Inl e \<Rightarrow> Inl e
      | Inr field_value \<Rightarrow>
          (case field_type field_type_metadata of
             INTEGER \<Rightarrow>
               (case push_int_value field_value of Inl e \<Rightarrow> Inl e | Inr t \<Rightarrow> Inr [t])
           | FLOAT \<Rightarrow>
               (case pack_f S field_value of Inl e \<Rightarrow> Inl e | Inr b \<Rightarrow> Inr [push_item b])
           | DOUBLE \<Rightarrow>
               (case pack_d S field_value of Inl e \<Rightarrow> Inl e | Inr b \<Rightarrow> Inr [push_item b])
           | BYTES \<Rightarrow>
               (case push_item_value field_value of Inl e \<Rightarrow> Inl e | Inr t \<Rightarrow> Inr [t])
           | STRING \<Rightarrow>
               (case field_value of
                  PStr s \<Rightarrow>
                    (case utf8_encode s of Inl e \<Rightarrow> Inl e | Inr b \<Rightarrow> Inr [push_item b])
                | _ \<Rightarrow> Inl AttributeError)
           | LIST \<Rightarrow>
               (case get_list_constraint d field_identifier of
                  Inl e \<Rightarrow> Inl e
                | Inr (list_definition, item_field_entry, item_count) \<Rightarrow>
                    (case py_iter field_value of
                       Inl e \<Rightarrow> Inl e
                     | Inr xs \<Rightarrow>
                         (case write_items S k list_definition field_identifier
                                 item_field_entry xs of
                            Inl e \<Rightarrow> Inl e
                          | Inr ts \<Rightarrow>
                              Inr ((case item_count of
                                      None \<Rightarrow> [push_int (int (length xs))]
                                    | Some n \<Rightarrow> []) @ ts))))
           | OBJECT \<Rightarrow>
               (case get_definition d field_identifier of
                  Inl e \<Rightarrow> Inl e
                | Inr next_definition \<Rightarrow> write_structure S k next_definition field_value)))"
| "write_items S k d field_identifier item_field_entry [] = Inr []"
| "write_items S k d field_identifier item_field_entry (item # rest) =
     (if stores_pointers (type_metadata item_field_entry) \<and> item = PNone then
        (case write_items S k d field_identifier item_field_entry rest of
           Inl e \<Rightarrow> Inl e
         | Inr ts \<Rightarrow> Inr (push_int 0 # ts))
      else
        (case write_type S k d field_identifier (type_metadata item_field_entry) item of
           Inl e \<Rightarrow> Inl e
         | Inr t1 \<Rightarrow>
             (case write_items S k d field_identifier item_field_entry rest of
                Inl e \<Rightarrow> Inl e
              | Inr ts \<Rightarrow>
                  Inr ((if stores_pointers (type_metadata item_field_entry)
                        then [push_int 1] else []) @ t1 @ ts))))"
  by pat_completeness auto

termination
  by (relation "inv_image (less_than <*lex*> less_than)
        (\<lambda>x. case x of
            Inl (Inl (S, k, d, v)) \<Rightarrow> (k, 0)
          | Inl (Inr (S, k, d, fs, v)) \<Rightarrow> (k, Suc (length fs))
          | Inr (Inl (S, k, d, i, m, v)) \<Rightarrow> (k, 0)
          | Inr (Inr (Inl (S, k, d, i, m, v))) \<Rightarrow> (k, 0)
          | Inr (Inr (Inr (S, k, d, i, fe, xs))) \<Rightarrow> (k, Suc (length xs)))")
    auto

definition dump ::
  "struct_module \<Rightarrow> nat \<Rightarrow> pyval \<Rightarrow> class_references \<Rightarrow> error + token list" where
  "dump S frames object structure_metadata =
     (case object of
        PInstance cls attrs \<Rightarrow>
          (case DataclassDefinition_init cls structure_metadata of
             Inl e \<Rightarrow> Inl e
           | Inr d \<Rightarrow> write_structure S frames d object)
      | _ \<Rightarrow> Inl TypeError)"

definition dumps ::
  "struct_module \<Rightarrow> nat \<Rightarrow> pyval \<Rightarrow> class_references \<Rightarrow> error + token list" where
  "dumps S frames object structure_metadata = dump S frames object structure_metadata"

section \<open>Example structures\<close>

text \<open>
  The examples hold no float field, so no conversion of the \<^verbatim>\<open>struct\<close> module is reached
  and they hold for every module. They are stated for the one below, which converts nothing.
\<close>

definition no_struct :: struct_module where
  "no_struct =
     Struct (\<lambda>v. Inl StructError) (\<lambda>v. Inl StructError) (\<lambda>b. PNone) (\<lambda>b. PNone)"

text \<open>The schema of the default-elision example, with a pointer field added:
  \<^verbatim>\<open>IntField: int\<close> (id 1), \<^verbatim>\<open>StrField: str\<close> (id 2), \<^verbatim>\<open>PointerField: str | None\<close>
  (id 7).\<close>

definition Example :: dataclass where
  "Example = Dataclass ''Example''
     [Field ''IntField'' ''int'' (Some 1) None None,
      Field ''StrField'' ''str'' (Some 2) None None,
      Field ''PointerField'' ''str | None'' (Some 7) None None]"

definition example_definition :: DataclassDefinition where
  "example_definition = Definition Example Map.empty
     [(''IntField'', FieldEntry 1 (FieldTypeMetadata INTEGER False False)),
      (''StrField'', FieldEntry 2 (FieldTypeMetadata STRING False False)),
      (''PointerField'', FieldEntry 7 (FieldTypeMetadata STRING False True))]"

text \<open>The stream \<^verbatim>\<open>count=1, id=2, "hi"\<close> and the stream \<^verbatim>\<open>count=1, id=999\<close>.\<close>

definition hi_stream :: GENERATOR where
  "hi_stream = [push_int 1, push_int 2, push_item [0x68, 0x69]]"

definition unknown_stream :: GENERATOR where
  "unknown_stream = [push_int 1, push_int 999]"

text \<open>Three list fields: a list of pointers to integers, a list of fixed length 2 and a
  list whose length is written.\<close>

definition Lists :: dataclass where
  "Lists = Dataclass ''Lists''
     [Field ''ArrayIntPtrField'' ''list[int | None]'' (Some 1) None None,
      Field ''FixedArrayPrimitiveField'' ''list[int]'' (Some 2) (Some 2) None,
      Field ''ArrayPrimitiveField'' ''list[int]'' (Some 3) None None]"

definition lists_definition :: DataclassDefinition where
  "lists_definition = Definition Lists Map.empty
     [(''ArrayIntPtrField'', FieldEntry 1 (FieldTypeMetadata LIST False False)),
      (''FixedArrayPrimitiveField'', FieldEntry 2 (FieldTypeMetadata LIST False False)),
      (''ArrayPrimitiveField'', FieldEntry 3 (FieldTypeMetadata LIST False False))]"

text \<open>A structure with a pointer to a substructure, \<^verbatim>\<open>SubStructPtr: XTestSubStruct | None\<close>,
  and its instance whose pointer is \<^verbatim>\<open>None\<close>.\<close>

definition XTestSubStruct :: dataclass where
  "XTestSubStruct = Dataclass ''XTestSubStruct''
     [Field ''SubIntField'' ''int'' (Some 1) None None,
      Field ''SubStringField'' ''str'' (Some 2) None None]"

definition Outer :: dataclass where
  "Outer = Dataclass ''Outer''
     [Field ''SubStructPtr'' ''XTestSubStruct | None'' (Some 4) None None]"

definition structure_metadata :: class_references where
  "structure_metadata = [''XTestSubStruct'' \<mapsto> (Class XTestSubStruct, None, OBJECT)]"

definition outer_definition :: DataclassDefinition where
  "outer_definition = Definition Outer structure_metadata
     [(''SubStructPtr'', FieldEntry 4 (FieldTypeMetadata OBJECT True True))]"

definition outer_null :: pyval where
  "outer_null = PInstance Outer [(''SubStructPtr'', PNone)]"

text \<open>A structure that declares the field id 1 twice.\<close>

definition Duplicate :: dataclass where
  "Duplicate = Dataclass ''Duplicate''
     [Field ''First'' ''int'' (Some 1) None None,
      Field ''Second'' ''str'' (Some 1) None None]"

text \<open>An instance of the example structure that has lost its attribute \<^verbatim>\<open>StrField\<close>.\<close>

definition example_without_str :: pyval where
  "example_without_str = PInstance Example [(''IntField'', PInt 5), (''PointerField'', PNone)]"

text \<open>A custom scalar bound to the field type \<^verbatim>\<open>INTEGER\<close>: the binding
  \<^verbatim>\<open>"Amount": (decode, encoder factory, FieldType.INTEGER)\<close> and a structure with a field
  of that type.\<close>

definition amount_metadata :: class_references where
  "amount_metadata =
     [''Amount'' \<mapsto> (Callable (\<lambda>v. Inr (PCustom ''Amount'' [])),
                     Some (\<lambda>v. Inr (PBytes [])), INTEGER)]"

definition Priced :: dataclass where
  "Priced = Dataclass ''Priced'' [Field ''Price'' ''Amount'' (Some 1) None None]"

section \<open>Properties of the decoder\<close>

lemma example_definition_built:
  "DataclassDefinition_init Example Map.empty = Inr example_definition"
  by (simp add: DataclassDefinition_init_def Example_def example_definition_def
        map_type_name_to_field_type_def endswith_def startswith_def strip_none_def)

lemma populate_other:
  "name \<notin> fst ` set fs \<Longrightarrow> map_of (populate fs kw) name = map_of kw name"
  by (induction fs kw rule: populate.induct) (auto simp: update_conv' split: option.splits)

lemma populate_backfill:
  "distinct (map fst fs) \<Longrightarrow> (name, fe) \<in> set fs \<Longrightarrow> map_of kw name = None \<Longrightarrow>
     map_of (populate fs kw) name =
       (if stores_pointers (type_metadata fe) then Some PNone
        else TYPE_DEFAULTS (field_type (type_metadata fe)))"
proof (induction fs kw rule: populate.induct)
  case (1 kw)
  then show ?case by simp
next
  case (2 field_name field rest kw)
  show ?case
  proof (cases "field_name = name")
    case True
    with "2.prems" have fe: "field = fe" and nin: "name \<notin> fst ` set rest"
      by (auto simp: image_iff)
    show ?thesis using True fe "2.prems"(3) nin
      by (simp add: populate_other update_conv' split: option.splits)
  next
    case False
    with "2.prems" have mem: "(name, fe) \<in> set rest" and d: "distinct (map fst rest)"
      by auto
    show ?thesis
      using False mem d "2.prems"(3) "2.IH"
      by (auto simp: update_conv' split: option.splits)
  qed
qed

lemma map_of_attrs:
  "map_of (map (\<lambda>f. (fld_name f, h (fld_name f))) fs) n
     = (if n \<in> fld_name ` set fs then Some (h n) else None)"
  by (induction fs) auto

lemma construct_attr:
  assumes "construct c kw = Inr v" and "map_of kw name = Some x"
  shows "hasattr v name \<and> getattr v name = x"
proof -
  from assms(2) have "name \<in> fst ` set kw"
    by (metis map_of_eq_None_iff option.distinct(1))
  with assms(1) have mem: "name \<in> fld_name ` set (cls_fields c)"
    by (auto simp: construct_def split: if_splits)
  from assms(1) have v: "v = PInstance c (map (\<lambda>f. (fld_name f,
        (case map_of kw (fld_name f) of Some v \<Rightarrow> v | None \<Rightarrow> PNone))) (cls_fields c))"
    by (auto simp: construct_def split: if_splits)
  show ?thesis
    using mem assms(2)
    by (simp add: v hasattr_def getattr_def
          map_of_attrs[where h = "\<lambda>n. case map_of kw n of Some v \<Rightarrow> v | None \<Rightarrow> PNone"])
qed

lemma get_field_entry_unknown:
  "fid \<notin> ident ` set (get_field_entries d) \<Longrightarrow>
     get_field_entry d fid = Inl (ValueError (UnexpectedFieldIdentifier fid))"
  unfolding get_field_entry_def
  by (auto simp: find_None_iff split: option.splits)

section \<open>The integer tokens\<close>

text \<open>\<^verbatim>\<open>item_to_int\<close> recovers the integer \<^verbatim>\<open>push_int\<close> wrote.\<close>

lemma from_le_le_bytes: "from_le (le_bytes n) = n"
proof (induction n rule: le_bytes.induct)
  case (1 n)
  show ?case
  proof (cases "n = 0")
    case True
    then show ?thesis by (simp add: le_bytes.simps)
  next
    case False
    have "from_le (le_bytes n)
            = unat (word_of_nat (n mod 256) :: 8 word) + 256 * from_le (le_bytes (n div 256))"
      using False by (subst le_bytes.simps) simp
    also have "\<dots> = n mod 256 + 256 * (n div 256)"
      using 1[OF False] by (simp add: unat_of_nat)
    finally show ?thesis by simp
  qed
qed

lemma le_bytes_nonempty: "0 < n \<Longrightarrow> le_bytes n \<noteq> []"
  by (subst le_bytes.simps) simp

lemma from_le_append: "from_le (xs @ ys) = from_le xs + 256 ^ length xs * from_le ys"
  by (induction xs) (auto simp: algebra_simps)

lemma clear_sign_bit:
  fixes x :: "8 word"
  assumes a: "x AND 0x80 = 0"
  shows "(x OR 0x80) AND 0x7f = x"
proof -
  have m: "(0x7f :: 8 word) = mask 7" by (simp add: mask_eq_exp_minus_1)
  have p: "(0x80 :: 8 word) = 2 ^ 7" by simp
  have "bit (x AND 2 ^ 7) 7 = bit (0 :: 8 word) 7" using a unfolding p by simp
  then have x7: "\<not> bit x 7" by (simp add: bit_simps)
  show ?thesis
    unfolding m p
  proof (rule bit_word_eqI)
    fix n assume "n < LENGTH(8)"
    then have n: "n < 8" by simp
    show "bit ((x OR 2 ^ 7) AND mask 7) n = bit x n"
    proof (cases "n = 7")
      case True
      then show ?thesis using x7 by (simp add: bit_simps)
    next
      case False
      with n have n7: "n < 7" by simp
      have e: "bit (128 :: 8 word) n \<longleftrightarrow> n = 7"
        using bit_exp_iff[where 'a = "8 word", of 7 n] by auto
      show ?thesis using n7 e by (auto simp: bit_simps)
    qed
  qed
qed

lemma item_to_int_int_to_item: "item_to_int (Some (int_to_item v)) = v"
proof (cases "v = 0")
  case True
  then show ?thesis by (simp add: item_to_int_def int_to_item_def)
next
  case False
  define m where "m = le_bytes (nat \<bar>v\<bar>)"
  have ne: "m \<noteq> []" unfolding m_def using False by (intro le_bytes_nonempty) simp
  have fm: "int (from_le m) = \<bar>v\<bar>" unfolding m_def by (simp add: from_le_le_bytes)
  have split: "butlast m @ [last m] = m" using ne by simp
  show ?thesis
  proof (cases "last m AND 0x80 \<noteq> 0")
    case True
    have "int_to_item v = m @ [if v < 0 then 0x80 else 0]"
      using False True by (simp add: int_to_item_def m_def Let_def)
    then show ?thesis
      using fm False by (auto simp: item_to_int_def from_le_append)
  next
    case clear: False
    show ?thesis
    proof (cases "v < 0")
      case True
      have "int_to_item v = butlast m @ [last m OR 0x80]"
        using False clear True by (simp add: int_to_item_def m_def Let_def)
      then show ?thesis
        using fm True clear split clear_sign_bit[of "last m"] by (simp add: item_to_int_def)
    next
      case pos: False
      have "int_to_item v = m"
        using False clear pos by (simp add: int_to_item_def m_def Let_def)
      then show ?thesis
        using fm pos clear ne by (simp add: item_to_int_def)
    qed
  qed
qed

lemma item_to_int_push_int: "item_to_int (snd (push_int v)) = v"
  using item_to_int_int_to_item[of v]
  by (auto simp: push_int_def push_item_def item_to_int_def)

text \<open>
  Claim C3. When \<^verbatim>\<open>_read_structure\<close> returns an instance, every declared field whose name
  the stream did not bring (it is not a key of \<open>kwargs\<close> after the loop over the wire
  fields) is an attribute of the instance: \<^verbatim>\<open>None\<close> when the field stores pointers, and
  otherwise \<open>0\<close>, the empty string or the empty bytes for an Integer, String or Bytes
  field. Field names are distinct, as the fields of a dataclass are.
\<close>

theorem C3_backfill:
  assumes wire: "read_fields S k (nat (item_to_int cnt)) g d [] = Inr (kwargs, g')"
      and inst: "read_structure S (Suc k) ((opcode, cnt) # g) d c = Inr (v, g'')"
      and fld: "(name, fe) \<in> set (get_fields d)"
      and dist: "distinct (map fst (get_fields d))"
      and absent: "map_of kwargs name = None"
  shows "(stores_pointers (type_metadata fe) \<longrightarrow> hasattr v name \<and> getattr v name = PNone)
       \<and> (\<not> stores_pointers (type_metadata fe) \<longrightarrow>
            (field_type (type_metadata fe) = INTEGER \<longrightarrow>
               hasattr v name \<and> getattr v name = PInt 0)
          \<and> (field_type (type_metadata fe) = STRING \<longrightarrow>
               hasattr v name \<and> getattr v name = PStr [])
          \<and> (field_type (type_metadata fe) = BYTES \<longrightarrow>
               hasattr v name \<and> getattr v name = PBytes []))"
proof -
  from wire inst have c: "construct c (populate (get_fields d) kwargs) = Inr v"
    by (auto simp: next_token_def split: sum.splits)
  have m: "map_of (populate (get_fields d) kwargs) name =
       (if stores_pointers (type_metadata fe) then Some PNone
        else TYPE_DEFAULTS (field_type (type_metadata fe)))"
    by (rule populate_backfill[OF dist fld absent])
  show ?thesis
    using construct_attr[OF c] m by (auto simp: TYPE_DEFAULTS_def)
qed

text \<open>The default-elision example: the stream \<^verbatim>\<open>count=1, id=2, "hi"\<close> decodes to
  \<^verbatim>\<open>IntField=0\<close>, \<^verbatim>\<open>StrField="hi"\<close>, \<^verbatim>\<open>PointerField=None\<close>.\<close>

theorem C3_backfill_witness:
  "read_structure no_struct 3 hi_stream example_definition Example
     = Inr (PInstance Example
              [(''IntField'', PInt 0), (''StrField'', PStr [0x68, 0x69]),
               (''PointerField'', PNone)], [])
   \<and> getattr (PInstance Example
              [(''IntField'', PInt 0), (''StrField'', PStr [0x68, 0x69]),
               (''PointerField'', PNone)]) ''IntField'' = PInt 0
   \<and> getattr (PInstance Example
              [(''IntField'', PInt 0), (''StrField'', PStr [0x68, 0x69]),
               (''PointerField'', PNone)]) ''PointerField'' = PNone"
proof -
  let ?v = "PInstance Example
              [(''IntField'', PInt 0), (''StrField'', PStr [0x68, 0x69]),
               (''PointerField'', PNone)]"
  let ?g = "[push_int 2, push_item [0x68, 0x69]]"
  have wire: "read_fields no_struct 2 (nat (item_to_int (Some [1]))) ?g example_definition []
                = Inr ([(''StrField'', PStr [0x68, 0x69])], [])"
    by code_simp
  have inst: "read_structure no_struct (Suc 2) ((81, Some [1]) # ?g) example_definition Example
                = Inr (?v, [])"
    by code_simp
  have i: "(''IntField'', FieldEntry 1 (FieldTypeMetadata INTEGER False False))
             \<in> set (get_fields example_definition)"
    by (simp add: get_fields_def example_definition_def)
  have p: "(''PointerField'', FieldEntry 7 (FieldTypeMetadata STRING False True))
             \<in> set (get_fields example_definition)"
    by (simp add: get_fields_def example_definition_def)
  have dist: "distinct (map fst (get_fields example_definition))"
    by (simp add: get_fields_def example_definition_def)
  have ai: "map_of [(''StrField'', PStr [0x68, 0x69])] ''IntField'' = None" by simp
  have ap: "map_of [(''StrField'', PStr [0x68, 0x69])] ''PointerField'' = None" by simp
  have s: "hi_stream = (81, Some [1]) # ?g" by code_simp
  show ?thesis
    using C3_backfill[OF wire inst i dist ai] C3_backfill[OF wire inst p dist ap] inst s
    by (simp add: numeral_3_eq_3)
qed

text \<open>
  Claim C6. Decoding a field of type \<^verbatim>\<open>FLOAT\<close> (which is not a class reference) raises
  the \<^verbatim>\<open>ValueError\<close> "Invalid float length, expected 4 bytes" when the token has no payload
  or a payload of another length, and returns \<^verbatim>\<open>struct.unpack("<f", payload)\<close>, the
  little-endian IEEE-754 reading, when it has four bytes; the same holds for \<^verbatim>\<open>DOUBLE\<close>
  with eight bytes and \<^verbatim>\<open>"<d"\<close>.
\<close>

theorem C6_float_length:
  "(field_type (type_metadata fe) = FLOAT \<and> \<not> is_class_reference (type_metadata fe) \<longrightarrow>
      read_type S (Suc k) ((opcode, None) # g) d fe
        = Inl (ValueError (InvalidFloatLength 4 None))
    \<and> (length b \<noteq> 4 \<longrightarrow> read_type S (Suc k) ((opcode, Some b) # g) d fe
           = Inl (ValueError (InvalidFloatLength 4 (Some (length b)))))
    \<and> (length b = 4 \<longrightarrow> read_type S (Suc k) ((opcode, Some b) # g) d fe
           = Inr (unpack_f S b, g)))
  \<and> (field_type (type_metadata fe) = DOUBLE \<and> \<not> is_class_reference (type_metadata fe) \<longrightarrow>
      read_type S (Suc k) ((opcode, None) # g) d fe
        = Inl (ValueError (InvalidFloatLength 8 None))
    \<and> (length b \<noteq> 8 \<longrightarrow> read_type S (Suc k) ((opcode, Some b) # g) d fe
           = Inl (ValueError (InvalidFloatLength 8 (Some (length b)))))
    \<and> (length b = 8 \<longrightarrow> read_type S (Suc k) ((opcode, Some b) # g) d fe
           = Inr (unpack_d S b, g)))"
  by (simp add: next_token_def)

text \<open>The float boundary: a Float32 token of three bytes and a Float64 token of nine.\<close>

theorem C6_float_length_witness:
  "read_type no_struct (Suc 0) [(3, Some [1, 2, 3])] example_definition
       (FieldEntry 4 (FieldTypeMetadata FLOAT False False))
     = Inl (ValueError (InvalidFloatLength 4 (Some 3)))
   \<and> read_type no_struct (Suc 0) [(9, Some [1, 2, 3, 4, 5, 6, 7, 8, 9])] example_definition
       (FieldEntry 5 (FieldTypeMetadata DOUBLE False False))
     = Inl (ValueError (InvalidFloatLength 8 (Some 9)))
   \<and> read_type no_struct (Suc 0) [(4, Some [0, 0, 128, 63])] example_definition
       (FieldEntry 4 (FieldTypeMetadata FLOAT False False))
     = Inr (unpack_f no_struct [0, 0, 128, 63], [])"
  using
    C6_float_length[of "FieldEntry 4 (FieldTypeMetadata FLOAT False False)" no_struct 0 3 "[]"
      example_definition "[1, 2, 3]"]
    C6_float_length[of "FieldEntry 5 (FieldTypeMetadata DOUBLE False False)" no_struct 0 9 "[]"
      example_definition "[1, 2, 3, 4, 5, 6, 7, 8, 9]"]
    C6_float_length[of "FieldEntry 4 (FieldTypeMetadata FLOAT False False)" no_struct 0 4 "[]"
      example_definition "[0, 0, 128, 63]"]
  by (simp del: read_type.simps)

text \<open>
  Claim C7. When the field id read from the stream is the identifier of no declared field,
  \<^verbatim>\<open>_read_field\<close> raises the \<^verbatim>\<open>ValueError\<close> "Unexpected field identifier" before it
  reads a value; the loop over the wire fields raises it from any of its iterations, and
  so does \<^verbatim>\<open>_read_structure\<close>, which returns no instance and skips nothing.
\<close>

theorem C7_unknown_field:
  assumes "item_to_int item \<notin> ident ` set (get_field_entries d)"
  shows "read_field S (Suc k) ((opcode, item) # g) d
           = Inl (ValueError (UnexpectedFieldIdentifier (item_to_int item)))
       \<and> read_fields S (Suc k) (Suc n) ((opcode, item) # g) d kwargs
           = Inl (ValueError (UnexpectedFieldIdentifier (item_to_int item)))
       \<and> (0 < item_to_int cnt \<longrightarrow>
            read_structure S (Suc (Suc k)) ((opcode0, cnt) # (opcode, item) # g) d c
              = Inl (ValueError (UnexpectedFieldIdentifier (item_to_int item))))"
proof -
  have f: "read_field S (Suc k) ((opcode, item) # g) d
           = Inl (ValueError (UnexpectedFieldIdentifier (item_to_int item)))"
    using get_field_entry_unknown[OF assms] by (simp add: next_token_def)
  have fs: "read_fields S (Suc k) (Suc n) ((opcode, item) # g) d kw
           = Inl (ValueError (UnexpectedFieldIdentifier (item_to_int item)))" for n kw
    using f by simp
  have st: "read_structure S (Suc (Suc k)) ((opcode0, cnt) # (opcode, item) # g) d c
              = Inl (ValueError (UnexpectedFieldIdentifier (item_to_int item)))"
    if "0 < item_to_int cnt"
  proof -
    from that obtain m where m: "nat (item_to_int cnt) = Suc m"
      by (cases "nat (item_to_int cnt)") auto
    show ?thesis
      using fs[of m "[]"] by (simp add: next_token_def m del: read_fields.simps)
  qed
  show ?thesis using f fs st by blast
qed

text \<open>The unknown-field example: \<^verbatim>\<open>count=1\<close> followed by \<^verbatim>\<open>fieldId=999\<close>.\<close>

theorem C7_unknown_field_witness:
  "item_to_int (Some [0xE7, 3]) \<notin> ident ` set (get_field_entries example_definition)
   \<and> unknown_stream = [(81, Some [1]), (2, Some [0xE7, 3])]
   \<and> read_structure no_struct (Suc (Suc 0)) [(81, Some [1]), (2, Some [0xE7, 3])]
        example_definition Example
      = Inl (ValueError (UnexpectedFieldIdentifier 999))"
proof -
  have v: "item_to_int (Some [0xE7, 3]) = 999" by code_simp
  have h: "item_to_int (Some [0xE7, 3]) \<notin> ident ` set (get_field_entries example_definition)"
    unfolding v by (simp add: get_field_entries_def example_definition_def)
  have c: "0 < item_to_int (Some [1])" by code_simp
  have s: "unknown_stream = [(81, Some [1]), (2, Some [0xE7, 3])]" by code_simp
  show ?thesis
    using C7_unknown_field[OF h, of no_struct 0 2 "[]" 0 "[]" "Some [1]" 81 Example] h c s v
    by (simp del: read_structure.simps read_fields.simps read_field.simps)
qed

section \<open>Lists\<close>

lemma lists_definition_built:
  "DataclassDefinition_init Lists Map.empty = Inr lists_definition"
  by (simp add: DataclassDefinition_init_def Lists_def lists_definition_def
        map_type_name_to_field_type_def endswith_def startswith_def strip_none_def)

lemma lists_constraint_1:
  "get_list_constraint lists_definition 1
     = Inr (lists_definition, FieldEntry 1 (FieldTypeMetadata INTEGER False True), None)"
  by (simp add: get_list_constraint_def lists_definition_def Lists_def dataclass_field_def
        list_item_type_def map_type_name_to_field_type_def endswith_def startswith_def
        strip_none_def)

lemma lists_constraint_2:
  "get_list_constraint lists_definition 2
     = Inr (lists_definition, FieldEntry 2 (FieldTypeMetadata INTEGER False False), Some 2)"
  by (simp add: get_list_constraint_def lists_definition_def Lists_def dataclass_field_def
        list_item_type_def map_type_name_to_field_type_def endswith_def startswith_def
        strip_none_def)

lemma lists_constraint_3:
  "get_list_constraint lists_definition 3
     = Inr (lists_definition, FieldEntry 3 (FieldTypeMetadata INTEGER False False), None)"
  by (simp add: get_list_constraint_def lists_definition_def Lists_def dataclass_field_def
        list_item_type_def map_type_name_to_field_type_def endswith_def startswith_def
        strip_none_def)

text \<open>
  Claim C4. In a list whose items store pointers, the decoder reads one token per slot and
  looks at its opcode: \<^verbatim>\<open>OP_0\<close> appends \<^verbatim>\<open>None\<close> and goes on with the next token,
  \<^verbatim>\<open>OP_1\<close> is followed by the item, and any other opcode raises the \<^verbatim>\<open>ValueError\<close>
  "List of pointers contains a non-zero/non-one entry prefix". The encoder writes
  \<^verbatim>\<open>push_int(0)\<close> for \<^verbatim>\<open>None\<close> and \<^verbatim>\<open>push_int(1)\<close> followed by the item otherwise;
  these are the one-byte tokens \<^verbatim>\<open>OP_0\<close> and \<^verbatim>\<open>OP_1\<close>. The list \<^verbatim>\<open>[5, None, 7]\<close> of
  pointers to integers is written as the count 3 and the slots \<^verbatim>\<open>1 5\<close>, \<^verbatim>\<open>0\<close>,
  \<^verbatim>\<open>1 7\<close>, and read back as \<^verbatim>\<open>[5, None, 7]\<close>.
\<close>

theorem C4_nullable_list:
  assumes sp: "stores_pointers (type_metadata ife)"
  shows
    "read_items S k (Suc n) ((OP_0, item) # g) ld ife acc
       = read_items S k n g ld ife (acc @ [PNone])
   \<and> read_items S k (Suc n) ((OP_1, item) # g) ld ife acc
       = (case read_type S k g ld ife of
            Inl e \<Rightarrow> Inl e
          | Inr (v, g2) \<Rightarrow> read_items S k n g2 ld ife (acc @ [v]))
   \<and> (opcode \<noteq> OP_0 \<and> opcode \<noteq> OP_1 \<longrightarrow>
        read_items S k (Suc n) ((opcode, item) # g) ld ife acc
          = Inl (ValueError (ListPointerPrefix opcode item)))
   \<and> write_items S k d fid ife (PNone # rest)
       = (case write_items S k d fid ife rest of
            Inl e \<Rightarrow> Inl e
          | Inr ts \<Rightarrow> Inr (push_int 0 # ts))
   \<and> (x \<noteq> PNone \<longrightarrow>
        write_items S k d fid ife (x # rest)
          = (case write_type S k d fid (type_metadata ife) x of
               Inl e \<Rightarrow> Inl e
             | Inr t1 \<Rightarrow>
                 (case write_items S k d fid ife rest of
                    Inl e \<Rightarrow> Inl e
                  | Inr ts \<Rightarrow> Inr (push_int 1 # t1 @ ts))))
   \<and> push_int 0 = (OP_0, Some []) \<and> push_int 1 = (OP_1, Some [1])
   \<and> write_type no_struct 2 lists_definition 1 (FieldTypeMetadata LIST False False)
         (PList [PInt 5, PNone, PInt 7])
       = Inr [push_int 3, push_int 1, push_int 5, push_int 0, push_int 1, push_int 7]
   \<and> read_type no_struct 2
         [push_int 3, push_int 1, push_int 5, push_int 0, push_int 1, push_int 7]
         lists_definition (FieldEntry 1 (FieldTypeMetadata LIST False False))
       = Inr (PList [PInt 5, PNone, PInt 7], [])"
proof -
  have r0: "read_items S k (Suc n) ((OP_0, item) # g) ld ife acc
       = read_items S k n g ld ife (acc @ [PNone])"
    using sp by (simp add: next_token_def)
  have r1: "read_items S k (Suc n) ((OP_1, item) # g) ld ife acc
       = (case read_type S k g ld ife of
            Inl e \<Rightarrow> Inl e
          | Inr (v, g2) \<Rightarrow> read_items S k n g2 ld ife (acc @ [v]))"
    using sp by (simp add: next_token_def OP_0_def OP_1_def)
  have r2: "read_items S k (Suc n) ((opcode, item) # g) ld ife acc
          = Inl (ValueError (ListPointerPrefix opcode item))"
    if "opcode \<noteq> OP_0 \<and> opcode \<noteq> OP_1"
    using sp that by (simp add: next_token_def)
  have w0: "write_items S k d fid ife (PNone # rest)
       = (case write_items S k d fid ife rest of
            Inl e \<Rightarrow> Inl e
          | Inr ts \<Rightarrow> Inr (push_int 0 # ts))"
    using sp by simp
  have w1: "write_items S k d fid ife (x # rest)
          = (case write_type S k d fid (type_metadata ife) x of
               Inl e \<Rightarrow> Inl e
             | Inr t1 \<Rightarrow>
                 (case write_items S k d fid ife rest of
                    Inl e \<Rightarrow> Inl e
                  | Inr ts \<Rightarrow> Inr (push_int 1 # t1 @ ts)))"
    if "x \<noteq> PNone"
    using sp that by (auto split: sum.splits)
  have p0: "push_int 0 = (OP_0, Some [])" by (simp add: push_int_def)
  have p1: "push_int 1 = (OP_1, Some [1])" by code_simp
  have toks: "[push_int 3, push_int 1, push_int 5, push_int 0, push_int 1, push_int 7]
      = [(83, Some [3]), (81, Some [1]), (85, Some [5]), (0, Some []), (81, Some [1]),
         (87, Some [7])]"
    by code_simp
  have ew: "write_type no_struct 2 lists_definition 1 (FieldTypeMetadata LIST False False)
         (PList [PInt 5, PNone, PInt 7])
       = Inr [(83, Some [3]), (81, Some [1]), (85, Some [5]), (0, Some []), (81, Some [1]),
         (87, Some [7])]"
    by code_simp
  have er: "read_type no_struct 2
         [(83, Some [3]), (81, Some [1]), (85, Some [5]), (0, Some []), (81, Some [1]),
         (87, Some [7])]
         lists_definition (FieldEntry 1 (FieldTypeMetadata LIST False False))
       = Inr (PList [PInt 5, PNone, PInt 7], [])"
    by code_simp
  show ?thesis
    unfolding toks using r0 r1 r2 w0 w1 p0 p1 ew er toks by blast
qed

theorem C4_nullable_list_witness:
  "stores_pointers (type_metadata (FieldEntry 1 (FieldTypeMetadata INTEGER False True)))
   \<and> read_items no_struct 1 (Suc 0) [(OP_0, Some [])] lists_definition
        (FieldEntry 1 (FieldTypeMetadata INTEGER False True)) []
      = Inr ([PNone], [])
   \<and> read_items no_struct 1 (Suc 0) [(2, Some [1])] lists_definition
        (FieldEntry 1 (FieldTypeMetadata INTEGER False True)) []
      = Inl (ValueError (ListPointerPrefix 2 (Some [1])))
   \<and> write_items no_struct 1 lists_definition 1
        (FieldEntry 1 (FieldTypeMetadata INTEGER False True)) [PNone]
      = Inr [push_int 0]"
proof -
  let ?ife = "FieldEntry 1 (FieldTypeMetadata INTEGER False True)"
  have sp: "stores_pointers (type_metadata ?ife)"
    by simp
  note t = C4_nullable_list[OF sp, where S = no_struct and k = 1 and n = 0 and g = "[]"
      and ld = lists_definition and acc = "[]" and opcode = 2 and d = lists_definition
      and fid = 1 and rest = "[]"]
  have a: "read_items no_struct 1 (Suc 0) [(OP_0, Some [])] lists_definition ?ife []
             = read_items no_struct 1 0 [] lists_definition ?ife ([] @ [PNone])"
    by (rule t[where item = "Some []", THEN conjunct1])
  have ne: "(2 :: nat) \<noteq> OP_0 \<and> 2 \<noteq> OP_1" by (simp add: OP_0_def OP_1_def)
  have b: "read_items no_struct 1 (Suc 0) [(2, Some [1])] lists_definition ?ife []
             = Inl (ValueError (ListPointerPrefix 2 (Some [1])))"
    by (rule t[where item = "Some [1]", THEN conjunct2, THEN conjunct2, THEN conjunct1,
          THEN mp, OF ne])
  have c: "write_items no_struct 1 lists_definition 1 ?ife [PNone]
             = (case write_items no_struct 1 lists_definition 1 ?ife [] of
                  Inl e \<Rightarrow> Inl e
                | Inr ts \<Rightarrow> Inr (push_int 0 # ts))"
    by (rule t[where item = "Some []", THEN conjunct2, THEN conjunct2, THEN conjunct2,
          THEN conjunct1])
  have a': "read_items no_struct 1 0 [] lists_definition ?ife ([] @ [PNone]) = Inr ([PNone], [])"
    by simp
  have c': "(case write_items no_struct 1 lists_definition 1 ?ife [] of
                  Inl e \<Rightarrow> Inl e
                | Inr ts \<Rightarrow> Inr (push_int 0 # ts)) = Inr [push_int 0]"
    by simp
  show ?thesis
    using sp a[unfolded a'] b c[unfolded c'] by blast
qed

lemma read_items_length:
  "read_items S k m g ld ife acc = Inr (ys, g') \<Longrightarrow> length ys = length acc + m"
proof (induction m arbitrary: g acc)
  case 0
  then show ?case by simp
next
  case (Suc m)
  show ?case
  proof (cases "stores_pointers (type_metadata ife)")
    case True
    from Suc.prems obtain opcode vb g1 where g: "g = (opcode, vb) # g1"
      using True by (cases g) (auto simp: next_token_def)
    show ?thesis
    proof (cases "opcode = OP_0")
      case z: True
      with Suc.prems True g
      have "read_items S k m g1 ld ife (acc @ [PNone]) = Inr (ys, g')"
        by (simp add: next_token_def)
      from Suc.IH[OF this] show ?thesis by simp
    next
      case nz: False
      with Suc.prems True g obtain v g2 where
        "read_items S k m g2 ld ife (acc @ [v]) = Inr (ys, g')"
        by (auto simp: next_token_def split: if_splits sum.splits)
      from Suc.IH[OF this] show ?thesis by simp
    qed
  next
    case False
    with Suc.prems obtain v g2 where
      "read_items S k m g2 ld ife (acc @ [v]) = Inr (ys, g')"
      by (auto split: sum.splits)
    from Suc.IH[OF this] show ?thesis by simp
  qed
qed

text \<open>
  Claim C5. For a list field whose dataclass field declares \<^verbatim>\<open>bsor_length\<close>, the decoder
  reads the items from the very next token, with no count token before them, and the
  encoder writes the items alone; the decoder reads exactly the declared number of items.
  For a list field without \<^verbatim>\<open>bsor_length\<close> the encoder writes \<^verbatim>\<open>push_int(len)\<close>
  before the items, and the decoder takes the first token as the count, which
  \<^verbatim>\<open>item_to_int\<close> recovers from the token written.
\<close>

theorem C5_list_count:
  assumes lc: "get_list_constraint d (ident fe) = Inr (ld, ife, item_count)"
      and ft: "field_type (type_metadata fe) = LIST"
      and cr: "\<not> is_class_reference (type_metadata fe)"
  shows
    "(item_count = Some n \<longrightarrow>
        read_type S (Suc k) g d fe
          = (case read_items S k (nat n) g ld ife [] of
               Inl e \<Rightarrow> Inl e
             | Inr (ys, g2) \<Rightarrow> Inr (PList ys, g2))
      \<and> write_type S (Suc k) d (ident fe) (type_metadata fe) (PList xs)
          = write_items S k ld (ident fe) ife xs)
   \<and> (item_count = None \<longrightarrow>
        read_type S (Suc k) ((opcode, cnt) # g) d fe
          = (case read_items S k (nat (item_to_int cnt)) g ld ife [] of
               Inl e \<Rightarrow> Inl e
             | Inr (ys, g2) \<Rightarrow> Inr (PList ys, g2))
      \<and> write_type S (Suc k) d (ident fe) (type_metadata fe) (PList xs)
          = (case write_items S k ld (ident fe) ife xs of
               Inl e \<Rightarrow> Inl e
             | Inr ts \<Rightarrow> Inr (push_int (int (length xs)) # ts))
      \<and> nat (item_to_int (snd (push_int (int (length xs))))) = length xs)
   \<and> (read_items S k m g ld ife [] = Inr (ys, g') \<longrightarrow> length ys = m)"
proof -
  have fixed_r: "read_type S (Suc k) g d fe
          = (case read_items S k (nat n) g ld ife [] of
               Inl e \<Rightarrow> Inl e
             | Inr (ys, g2) \<Rightarrow> Inr (PList ys, g2))"
    if "item_count = Some n"
    using lc ft cr that by (simp split: sum.splits)
  have fixed_w: "write_type S (Suc k) d (ident fe) (type_metadata fe) (PList xs)
          = write_items S k ld (ident fe) ife xs"
    if "item_count = Some n"
    using lc ft cr that by (simp add: py_iter_def split: sum.splits)
  have dyn_r: "read_type S (Suc k) ((opcode, cnt) # g) d fe
          = (case read_items S k (nat (item_to_int cnt)) g ld ife [] of
               Inl e \<Rightarrow> Inl e
             | Inr (ys, g2) \<Rightarrow> Inr (PList ys, g2))"
    if "item_count = None"
    using lc ft cr that by (simp add: next_token_def split: sum.splits)
  have dyn_w: "write_type S (Suc k) d (ident fe) (type_metadata fe) (PList xs)
          = (case write_items S k ld (ident fe) ife xs of
               Inl e \<Rightarrow> Inl e
             | Inr ts \<Rightarrow> Inr (push_int (int (length xs)) # ts))"
    if "item_count = None"
    using lc ft cr that by (simp add: py_iter_def split: sum.splits)
  have cnt: "nat (item_to_int (snd (push_int (int (length xs))))) = length xs"
    by (simp add: item_to_int_push_int)
  have len: "length ys = m" if "read_items S k m g ld ife [] = Inr (ys, g')"
    using read_items_length[OF that] by simp
  show ?thesis
    using fixed_r fixed_w dyn_r dyn_w cnt len by blast
qed

text \<open>The fixed list of the example reads two items from two tokens and writes two tokens
  for two items; the other list writes and reads the count first.\<close>

theorem C5_list_count_witness:
  "get_list_constraint lists_definition 2
     = Inr (lists_definition, FieldEntry 2 (FieldTypeMetadata INTEGER False False), Some 2)
   \<and> read_type no_struct 2 [push_int 8, push_int 9] lists_definition
        (FieldEntry 2 (FieldTypeMetadata LIST False False))
      = Inr (PList [PInt 8, PInt 9], [])
   \<and> write_type no_struct 2 lists_definition 2 (FieldTypeMetadata LIST False False)
        (PList [PInt 8, PInt 9])
      = Inr [push_int 8, push_int 9]
   \<and> get_list_constraint lists_definition 3
     = Inr (lists_definition, FieldEntry 3 (FieldTypeMetadata INTEGER False False), None)
   \<and> read_type no_struct 2 [push_int 2, push_int 8, push_int 9] lists_definition
        (FieldEntry 3 (FieldTypeMetadata LIST False False))
      = Inr (PList [PInt 8, PInt 9], [])
   \<and> write_type no_struct 2 lists_definition 3 (FieldTypeMetadata LIST False False)
        (PList [PInt 8, PInt 9])
      = Inr [push_int 2, push_int 8, push_int 9]"
proof -
  let ?fixed = "FieldEntry 2 (FieldTypeMetadata LIST False False)"
  let ?dyn = "FieldEntry 3 (FieldTypeMetadata LIST False False)"
  let ?item2 = "FieldEntry 2 (FieldTypeMetadata INTEGER False False)"
  let ?item3 = "FieldEntry 3 (FieldTypeMetadata INTEGER False False)"
  have lc2: "get_list_constraint lists_definition (ident ?fixed)
               = Inr (lists_definition, ?item2, Some 2)"
    using lists_constraint_2 by simp
  have lc3: "get_list_constraint lists_definition (ident ?dyn)
               = Inr (lists_definition, ?item3, None)"
    using lists_constraint_3 by simp
  have ft2: "field_type (type_metadata ?fixed) = LIST" by simp
  have cr2: "\<not> is_class_reference (type_metadata ?fixed)" by simp
  have ft3: "field_type (type_metadata ?dyn) = LIST" by simp
  have cr3: "\<not> is_class_reference (type_metadata ?dyn)" by simp
  note f = C5_list_count[OF lc2 ft2 cr2, where n = 2 and S = no_struct and k = 1
      and xs = "[PInt 8, PInt 9]" and g = "[push_int 8, push_int 9]",
      THEN conjunct1, THEN mp, OF refl]
  note v = C5_list_count[OF lc3 ft3 cr3, where S = no_struct and k = 1
      and xs = "[PInt 8, PInt 9]" and opcode = 82 and cnt = "Some [2]"
      and g = "[push_int 8, push_int 9]",
      THEN conjunct2, THEN conjunct1, THEN mp, OF refl]
  have i1: "read_items no_struct 1 (nat 2) [push_int 8, push_int 9] lists_definition ?item2 []
             = Inr ([PInt 8, PInt 9], [])"
    by code_simp
  have i2: "write_items no_struct 1 lists_definition 2 ?item2 [PInt 8, PInt 9]
             = Inr [push_int 8, push_int 9]"
    by code_simp
  have p2: "push_int 2 = (82, Some [2])" by code_simp
  have i3: "read_items no_struct 1 (nat (item_to_int (Some [2]))) [push_int 8, push_int 9]
              lists_definition ?item3 [] = Inr ([PInt 8, PInt 9], [])"
    by code_simp
  have i4: "write_items no_struct 1 lists_definition 3 ?item3 [PInt 8, PInt 9]
             = Inr [push_int 8, push_int 9]"
    by code_simp
  have r2: "read_type no_struct 2 [push_int 8, push_int 9] lists_definition ?fixed
              = Inr (PList [PInt 8, PInt 9], [])"
    using f[THEN conjunct1] i1
    by (simp add: numeral_2_eq_2 del: read_type.simps read_items.simps)
  have w2: "write_type no_struct 2 lists_definition 2 (FieldTypeMetadata LIST False False)
              (PList [PInt 8, PInt 9]) = Inr [push_int 8, push_int 9]"
    using f[THEN conjunct2] i2
    by (simp add: numeral_2_eq_2 del: write_type.simps write_items.simps)
  have r3: "read_type no_struct 2 [push_int 2, push_int 8, push_int 9] lists_definition ?dyn
              = Inr (PList [PInt 8, PInt 9], [])"
    using v[THEN conjunct1] i3
    by (simp add: numeral_2_eq_2 p2 del: read_type.simps read_items.simps)
  have w3: "write_type no_struct 2 lists_definition 3 (FieldTypeMetadata LIST False False)
              (PList [PInt 8, PInt 9]) = Inr [push_int 2, push_int 8, push_int 9]"
    using v[THEN conjunct2, THEN conjunct1] i4
    by (simp add: numeral_2_eq_2 del: write_type.simps write_items.simps)
  show ?thesis
    using lists_constraint_2 lists_constraint_3 r2 w2 r3 w3 by blast
qed

section \<open>Properties of the encoder\<close>

lemma select_fields_append:
  "select_fields (a @ b) v = select_fields a v @ select_fields b v"
  by (induction a v rule: select_fields.induct) (auto split: option.splits)

lemma select_fields_hasattr:
  "(name, fe) \<in> set (select_fields fs v) \<Longrightarrow> hasattr v name"
  by (induction fs v rule: select_fields.induct) (auto split: option.splits if_splits)

text \<open>
  Claim C9. When the instance has no attribute of a declared field's name,
  \<^verbatim>\<open>_write_structure\<close> writes exactly what it writes for the other declared fields: the
  field is not among those counted, no entry of its name is written, and the count token
  and the fields written are those of the declaration without it.
\<close>

theorem C9_missing_attribute:
  assumes fs: "get_fields d = fs1 @ (name, fe) # fs2"
      and na: "\<not> hasattr v name"
  shows "select_fields (get_fields d) v = select_fields (fs1 @ fs2) v
       \<and> name \<notin> fst ` set (select_fields (get_fields d) v)
       \<and> write_structure S (Suc k) d v
           = (case write_fields S k d (select_fields (fs1 @ fs2) v) v of
                Inl e \<Rightarrow> Inl e
              | Inr ts \<Rightarrow> Inr (push_int (int (length (select_fields (fs1 @ fs2) v))) # ts))"
proof -
  have sel: "select_fields (get_fields d) v = select_fields (fs1 @ fs2) v"
    using na by (simp add: fs select_fields_append)
  have nin: "name \<notin> fst ` set (select_fields (get_fields d) v)"
    using na select_fields_hasattr by fastforce
  have w: "write_structure S (Suc k) d v
           = (case write_fields S k d (select_fields (fs1 @ fs2) v) v of
                Inl e \<Rightarrow> Inl e
              | Inr ts \<Rightarrow> Inr (push_int (int (length (select_fields (fs1 @ fs2) v))) # ts))"
    by (simp only: write_structure.simps sel)
  show ?thesis using sel nin w by blast
qed

text \<open>The example instance without \<^verbatim>\<open>StrField\<close> is written as \<^verbatim>\<open>count=1, id=1, 5\<close>.\<close>

theorem C9_missing_attribute_witness:
  "get_fields example_definition
     = [(''IntField'', FieldEntry 1 (FieldTypeMetadata INTEGER False False))]
       @ (''StrField'', FieldEntry 2 (FieldTypeMetadata STRING False False))
       # [(''PointerField'', FieldEntry 7 (FieldTypeMetadata STRING False True))]
   \<and> \<not> hasattr example_without_str ''StrField''
   \<and> write_structure no_struct (Suc 2) example_definition example_without_str
      = Inr [push_int 1, push_int 1, push_int 5]"
proof -
  let ?a = "[(''IntField'', FieldEntry 1 (FieldTypeMetadata INTEGER False False))]"
  let ?b = "[(''PointerField'', FieldEntry 7 (FieldTypeMetadata STRING False True))]"
  have fs: "get_fields example_definition
     = ?a @ (''StrField'', FieldEntry 2 (FieldTypeMetadata STRING False False)) # ?b"
    by (simp add: get_fields_def example_definition_def)
  have na: "\<not> hasattr example_without_str ''StrField''"
    by (simp add: hasattr_def example_without_str_def)
  have sel: "select_fields (?a @ ?b) example_without_str = ?a"
    by (simp add: hasattr_def getattr_def example_without_str_def TYPE_DEFAULTS_def
          equals_default_def)
  have wf: "write_fields no_struct 2 example_definition ?a example_without_str
              = Inr [push_int 1, push_int 5]"
    by code_simp
  note t = C9_missing_attribute[OF fs na, where S = no_struct and k = 2,
      THEN conjunct2, THEN conjunct2]
  have "write_structure no_struct (Suc 2) example_definition example_without_str
      = Inr [push_int 1, push_int 1, push_int 5]"
    using t unfolding sel wf by simp
  then show ?thesis using fs na by blast
qed

lemma find_distinct:
  "distinct (map f xs) \<Longrightarrow> x \<in> set xs \<Longrightarrow> find (\<lambda>y. f y = f x) xs = Some x"
  by (induction xs) (auto simp: image_iff)

lemma init_fields_shape:
  "init_fields fs refs enc acc = Inr r \<Longrightarrow>
     \<exists>es. r = acc @ es
        \<and> list_all2 (\<lambda>f e. fld_name f = fst e
                \<and> map_type_name_to_field_type (fld_type f) refs (Some f)
                     = Inr (type_metadata (snd e))) fs es"
proof (induction fs arbitrary: enc acc)
  case Nil
  then show ?case by simp
next
  case (Cons f fs)
  from Cons.prems obtain field_id md where
    md: "map_type_name_to_field_type (fld_type f) refs (Some f) = Inr md" and
    rest: "init_fields fs refs (insert field_id enc) (acc @ [(fld_name f, FieldEntry field_id md)])
             = Inr r"
    by (auto split: option.splits sum.splits)
  from Cons.IH[OF rest] obtain es where
    r: "r = (acc @ [(fld_name f, FieldEntry field_id md)]) @ es" and
    a: "list_all2 (\<lambda>f e. fld_name f = fst e
                \<and> map_type_name_to_field_type (fld_type f) refs (Some f)
                     = Inr (type_metadata (snd e))) fs es"
    by blast
  show ?case
    using r a md
    by (intro exI[of _ "(fld_name f, FieldEntry field_id md) # es"]) simp
qed

lemma startswith_list: "startswith t ''list['' \<longleftrightarrow> take 5 t = ''list[''"
proof -
  have l5: "length ''list['' = 5" by simp
  show ?thesis by (simp only: startswith_def l5)
qed

lemma endswith_none:
  "endswith t '' | None'' \<longleftrightarrow> 7 \<le> length t \<and> drop (length t - 7) t = '' | None''"
proof -
  have l7: "length '' | None'' = 7" by simp
  show ?thesis by (simp only: endswith_def l7)
qed

lemma list_prefix_none_suffix:
  assumes p: "startswith t ''list[''" and s: "endswith t '' | None''"
  shows "startswith (strip_none t) ''list[''"
proof -
  define m where "m = length t - 7"
  from s have len: "7 \<le> length t" and d: "drop m t = '' | None''"
    unfolding endswith_none m_def by blast+
  from p have tk: "take 5 t = ''list[''" unfolding startswith_list .
  show ?thesis
  proof (cases "5 \<le> m")
    case True
    then have "take 5 (take m t) = take 5 t" by (simp add: min_def)
    then show ?thesis using tk unfolding startswith_list strip_none_def m_def by simp
  next
    case False
    have "t ! 4 = take 5 t ! 4" by simp
    then have t4: "t ! 4 = CHR ''[''" unfolding tk by simp
    have "drop m t ! (4 - m) = t ! (m + (4 - m))"
      using len by (intro nth_drop) (simp add: m_def)
    then have "t ! 4 = '' | None'' ! (4 - m)" using False unfolding d by simp
    with t4 have c: "'' | None'' ! (4 - m) = CHR ''[''" by simp
    from False have "m = 0 \<or> m = 1 \<or> m = 2 \<or> m = 3 \<or> m = 4" by arith
    with c show ?thesis by (auto simp: nth_Cons')
  qed
qed

lemma class_reference_bound:
  assumes m: "map_type_name_to_field_type t refs fo = Inr md"
      and cr: "is_class_reference md"
  shows "t \<notin> {''int'', ''float'', ''str'', ''bytes''}
       \<and> (\<exists>a b ft.
             refs (if endswith (if startswith t ''list['' then list_item_type t else t) '' | None''
                   then strip_none (if startswith t ''list['' then list_item_type t else t)
                   else (if startswith t ''list['' then list_item_type t else t))
               = Some (a, b, ft))"
proof (cases "endswith t '' | None''")
  case True
  from m cr True have
    nl: "\<not> startswith (strip_none t) ''list[''" and
    bound: "\<exists>a b ft. refs (strip_none t) = Some (a, b, ft)"
    by (auto simp: map_type_name_to_field_type_def Let_def
             split: if_splits option.splits)
  from nl True have nl': "\<not> startswith t ''list[''"
    using list_prefix_none_suffix by blast
  from True have "7 \<le> length t" unfolding endswith_none by blast
  then have np: "t \<notin> {''int'', ''float'', ''str'', ''bytes''}" by auto
  show ?thesis using np nl' True bound by simp
next
  case False
  from m cr False have
    np: "t \<notin> {''int'', ''float'', ''str'', ''bytes''}" and
    nl: "\<not> startswith t ''list[''" and
    bound: "\<exists>a b ft. refs t = Some (a, b, ft)"
    by (auto simp: map_type_name_to_field_type_def Let_def
             split: if_splits option.splits)
  show ?thesis using np nl False bound by simp
qed

lemma get_field_value_class_reference:
  assumes built: "DataclassDefinition_init cls refs = Inr d"
      and fld: "(name, fe) \<in> set (get_fields d)"
      and cr: "is_class_reference (type_metadata fe)"
      and ids: "distinct (map (ident \<circ> snd) (get_fields d))"
      and names: "distinct (map fld_name (cls_fields cls))"
  shows "\<exists>a b. get_field_value d (ident fe) = Inr (a, b)"
proof -
  from built obtain r where
    i: "init_fields (cls_fields cls) refs {} [] = Inr r" and d: "d = Definition cls refs r"
    by (auto simp: DataclassDefinition_init_def split: sum.splits)
  from init_fields_shape[OF i] have
    a: "list_all2 (\<lambda>f e. fld_name f = fst e
                \<and> map_type_name_to_field_type (fld_type f) refs (Some f)
                     = Inr (type_metadata (snd e))) (cls_fields cls) r"
    by simp
  from fld d have mem: "(name, fe) \<in> set r" by (simp add: get_fields_def)
  then obtain j where j: "j < length r" and rj: "r ! j = (name, fe)"
    by (auto simp: in_set_conv_nth)
  from a j have jl: "j < length (cls_fields cls)" by (simp add: list_all2_lengthD)
  define f where "f = cls_fields cls ! j"
  from a j rj have fn: "fld_name f = name"
    and mt: "map_type_name_to_field_type (fld_type f) refs (Some f) = Inr (type_metadata fe)"
    by (auto simp: f_def dest: list_all2_nthD2)
  have fmem: "f \<in> set (cls_fields cls)" using jl by (simp add: f_def)
  have fnd: "find (\<lambda>entry. ident (snd entry) = ident fe) r = Some (name, fe)"
    using find_distinct[of "ident \<circ> snd" r "(name, fe)"] ids mem d
    by (simp add: get_fields_def)
  have dcf: "dataclass_field cls name = Inr f"
    using find_distinct[of fld_name "cls_fields cls" f] names fmem fn
    by (simp add: dataclass_field_def)
  from class_reference_bound[OF mt cr] show ?thesis
    using fnd dcf by (auto simp: get_field_value_def d Let_def)
qed

text \<open>
  Claim C10. For a definition built by \<^verbatim>\<open>DataclassDefinition\<close> (field ids and field
  names distinct), a field that is a class reference and whose field type is neither
  \<^verbatim>\<open>BYTES\<close> nor \<^verbatim>\<open>OBJECT\<close> makes \<^verbatim>\<open>_write_type\<close>, and so \<^verbatim>\<open>_write_field\<close>, raise
  \<^verbatim>\<open>NotImplementedError\<close> whatever the value.
\<close>

theorem C10_class_reference_not_implemented:
  assumes built: "DataclassDefinition_init cls refs = Inr d"
      and fld: "(name, fe) \<in> set (get_fields d)"
      and cr: "is_class_reference (type_metadata fe)"
      and nb: "field_type (type_metadata fe) \<noteq> BYTES"
      and no: "field_type (type_metadata fe) \<noteq> OBJECT"
      and ids: "distinct (map (ident \<circ> snd) (get_fields d))"
      and names: "distinct (map fld_name (cls_fields cls))"
  shows "write_type S (Suc k) d (ident fe) (type_metadata fe) v = Inl NotImplementedError
       \<and> write_field S (Suc (Suc k)) d (ident fe) (type_metadata fe) v
           = Inl NotImplementedError"
proof -
  from get_field_value_class_reference[OF built fld cr ids names] obtain a b where
    g: "get_field_value d (ident fe) = Inr (a, b)" by blast
  have t: "write_type S (Suc k) d (ident fe) (type_metadata fe) v = Inl NotImplementedError"
    for k
    using g cr nb no by simp
  show ?thesis using t by simp
qed

text \<open>The binding of \<^verbatim>\<open>Amount\<close> to \<^verbatim>\<open>INTEGER\<close> is accepted when the definition is built,
  and writing the field raises.\<close>

theorem C10_class_reference_not_implemented_witness:
  "DataclassDefinition_init Priced amount_metadata
     = Inr (Definition Priced amount_metadata
              [(''Price'', FieldEntry 1 (FieldTypeMetadata INTEGER True False))])
   \<and> write_type no_struct (Suc 0)
        (Definition Priced amount_metadata
           [(''Price'', FieldEntry 1 (FieldTypeMetadata INTEGER True False))])
        1 (FieldTypeMetadata INTEGER True False) (PCustom ''Amount'' [7])
      = Inl NotImplementedError"
proof -
  let ?fe = "FieldEntry 1 (FieldTypeMetadata INTEGER True False)"
  let ?d = "Definition Priced amount_metadata [(''Price'', ?fe)]"
  have built: "DataclassDefinition_init Priced amount_metadata = Inr ?d"
    by (simp add: DataclassDefinition_init_def Priced_def amount_metadata_def
          map_type_name_to_field_type_def endswith_def startswith_def strip_none_def)
  have fld: "(''Price'', ?fe) \<in> set (get_fields ?d)" by (simp add: get_fields_def)
  have cr: "is_class_reference (type_metadata ?fe)" by simp
  have nb: "field_type (type_metadata ?fe) \<noteq> BYTES" by simp
  have no: "field_type (type_metadata ?fe) \<noteq> OBJECT" by simp
  have ids: "distinct (map (ident \<circ> snd) (get_fields ?d))" by (simp add: get_fields_def)
  have names: "distinct (map fld_name (cls_fields Priced))" by (simp add: Priced_def)
  note t = C10_class_reference_not_implemented[OF built fld cr nb no ids names,
      where S = no_struct and k = 0 and v = "PCustom ''Amount'' [7]", THEN conjunct1]
  show ?thesis
    using built t by (simp del: write_type.simps)
qed

section \<open>Where the code departs from the specification\<close>

lemma outer_definition_built:
  "DataclassDefinition_init Outer structure_metadata = Inr outer_definition"
  by (simp add: DataclassDefinition_init_def Outer_def outer_definition_def
        structure_metadata_def map_type_name_to_field_type_def endswith_def startswith_def
        strip_none_def)

text \<open>
  Claim C1. The instance of \<^verbatim>\<open>Outer\<close> whose pointer field is \<^verbatim>\<open>None\<close> is canonical: it
  is what the stream \<^verbatim>\<open>count=0\<close> decodes to. \<^verbatim>\<open>dumps\<close> does not skip the field: it writes
  \<^verbatim>\<open>count=1, id=4\<close> and an empty structure, and \<^verbatim>\<open>loads\<close> of these tokens returns an
  instance whose pointer field is a substructure filled with defaults, not the instance
  that was encoded.
\<close>

theorem C1_round_trip_broken:
  "loads no_struct 4 [push_int 0] outer_definition Outer = Inr outer_null
   \<and> dumps no_struct 4 outer_null structure_metadata = Inr [push_int 1, push_int 4, push_int 0]
   \<and> loads no_struct 4 [push_int 1, push_int 4, push_int 0] outer_definition Outer
      = Inr (PInstance Outer
               [(''SubStructPtr'',
                 PInstance XTestSubStruct
                   [(''SubIntField'', PInt 0), (''SubStringField'', PStr [])])])
   \<and> PInstance Outer
         [(''SubStructPtr'',
           PInstance XTestSubStruct
             [(''SubIntField'', PInt 0), (''SubStringField'', PStr [])])] \<noteq> outer_null"
proof -
  have a: "loads no_struct 4 [push_int 0] outer_definition Outer = Inr outer_null"
    by code_simp
  have b: "dumps no_struct 4 outer_null structure_metadata
             = Inr [push_int 1, push_int 4, push_int 0]"
    by code_simp
  have c: "loads no_struct 4 [push_int 1, push_int 4, push_int 0] outer_definition Outer
      = Inr (PInstance Outer
               [(''SubStructPtr'',
                 PInstance XTestSubStruct
                   [(''SubIntField'', PInt 0), (''SubStringField'', PStr [])])])"
    by code_simp
  have d: "PInstance Outer
         [(''SubStructPtr'',
           PInstance XTestSubStruct
             [(''SubIntField'', PInt 0), (''SubStringField'', PStr [])])] \<noteq> outer_null"
    by (simp add: outer_null_def)
  show ?thesis using a b c d by blast
qed

text \<open>
  Claim C2. The field \<^verbatim>\<open>SubStructPtr\<close> stores pointers and its value is \<^verbatim>\<open>None\<close>, yet
  the first loop of \<^verbatim>\<open>_write_structure\<close> keeps it: the test for \<^verbatim>\<open>None\<close> is made only
  for the field types of \<^verbatim>\<open>TYPE_DEFAULTS\<close>. The field is counted and its id is written.
\<close>

theorem C2_null_pointer_written:
  "stores_pointers (FieldTypeMetadata OBJECT True True)
   \<and> getattr outer_null ''SubStructPtr'' = PNone
   \<and> select_fields (get_fields outer_definition) outer_null
      = [(''SubStructPtr'', FieldEntry 4 (FieldTypeMetadata OBJECT True True))]
   \<and> write_structure no_struct 4 outer_definition outer_null
      = Inr [push_int 1, push_int 4, push_int 0]"
proof -
  have a: "getattr outer_null ''SubStructPtr'' = PNone"
    by (simp add: getattr_def outer_null_def)
  have b: "select_fields (get_fields outer_definition) outer_null
      = [(''SubStructPtr'', FieldEntry 4 (FieldTypeMetadata OBJECT True True))]"
    by (simp add: get_fields_def outer_definition_def outer_null_def hasattr_def
          TYPE_DEFAULTS_def)
  have c: "write_structure no_struct 4 outer_definition outer_null
      = Inr [push_int 1, push_int 4, push_int 0]"
    by code_simp
  show ?thesis using a b c by simp
qed

text \<open>
  Claim C8. \<^verbatim>\<open>DataclassDefinition.__init__\<close> collects the field ids in
  \<^verbatim>\<open>encountered_identifiers\<close> and never looks at the set: the structure that declares the
  id 1 twice is built, with both fields under the id 1.
\<close>

theorem C8_duplicate_id_built:
  "DataclassDefinition_init Duplicate Map.empty
     = Inr (Definition Duplicate Map.empty
              [(''First'', FieldEntry 1 (FieldTypeMetadata INTEGER False False)),
               (''Second'', FieldEntry 1 (FieldTypeMetadata STRING False False))])"
  by (simp add: DataclassDefinition_init_def Duplicate_def
        map_type_name_to_field_type_def endswith_def startswith_def strip_none_def)

end
